theory Spec2Isabelle
  imports Complex_Main "HOL-Library.Option_ord"
begin

section \<open>Python values, events and errors\<close>

text \<open>
  A log event is a Python dict. Its values are JSON scalars. The key \<open>@timestamp\<close> holds
  a date that the event source orders; it is kept as a natural number (a point on the time
  line) in a field of its own, and every other key lives in the map \<open>ev_fields\<close>.
  Scores are Python floats; they are taken as real numbers, which keeps every comparison of
  the source exact.
\<close>

datatype pyval = PyStr string | PyInt int | PyFloat real | PyNone

datatype py_error = AttributeError | KeyError | TypeError | ValueError | ModelError

record event =
  at_timestamp :: "nat option"
  ev_fields :: "string \<rightharpoonup> pyval"

text \<open>\<open>d.get(key, default)\<close> of a Python dict.\<close>

definition dict_get :: "(string \<rightharpoonup> pyval) \<Rightarrow> string \<Rightarrow> pyval \<Rightarrow> pyval" where
  "dict_get d k dflt = (case d k of None \<Rightarrow> dflt | Some v \<Rightarrow> v)"

text \<open>\<open>record.get('@timestamp', datetime.now().isoformat())\<close>: the clock is an input.\<close>

definition get_timestamp :: "event \<Rightarrow> nat \<Rightarrow> nat" where
  "get_timestamp ev now = (case at_timestamp ev of None \<Rightarrow> now | Some t \<Rightarrow> t)"

text \<open>Sequencing of fallible steps: the first raise ends the \<open>try\<close> body.\<close>

definition try_bind :: "py_error + 'a \<Rightarrow> ('a \<Rightarrow> py_error + 'b) \<Rightarrow> py_error + 'b" where
  "try_bind r f = (case r of Inl e \<Rightarrow> Inl e | Inr v \<Rightarrow> f v)"

subsection \<open>Strings\<close>

text \<open>\<open>str.lower()\<close> on ASCII text, and the substring test \<open>pattern in s\<close>.\<close>

definition lower_char :: "char \<Rightarrow> char" where
  "lower_char c =
     (case map_of (zip ''ABCDEFGHIJKLMNOPQRSTUVWXYZ'' ''abcdefghijklmnopqrstuvwxyz'') c of
        Some l \<Rightarrow> l | None \<Rightarrow> c)"

definition lower :: "string \<Rightarrow> string" where
  "lower s = map lower_char s"

fun starts_with :: "string \<Rightarrow> string \<Rightarrow> bool" where
  "starts_with [] s = True"
| "starts_with (p # ps) [] = False"
| "starts_with (p # ps) (c # cs) = (p = c \<and> starts_with ps cs)"

fun contains :: "string \<Rightarrow> string \<Rightarrow> bool" where
  "contains p [] = starts_with p []"
| "contains p (c # cs) = (starts_with p (c # cs) \<or> contains p cs)"

subsection \<open>Floating-point addition\<close>

text \<open>
  A Python float is an IEEE 754 double: a real number with a 53-bit significand. A literal
  and the result of an addition are the nearest double, a tie going to the even
  significand. \<open>round64\<close> scales the magnitude into the range from \<open>2^52\<close> up to
  \<open>2^53\<close>, where the doubles are the integers, rounds there and scales back; the scaling
  up stops at \<open>2^1074\<close>, the spacing of the subnormal numbers. Overflow to infinity is
  left out: no sum of the program comes near it.
\<close>

definition round_half_even :: "real \<Rightarrow> int" where
  "round_half_even q =
     (let f = \<lfloor>q\<rfloor>; d = q - of_int f
      in if d < 1/2 then f else if d > 1/2 then f + 1 else if even f then f else f + 1)"

fun scale_up :: "nat \<Rightarrow> real \<Rightarrow> nat" where
  "scale_up 0 x = 0"
| "scale_up (Suc fuel) x = (if x \<ge> 2 ^ 52 then 0 else Suc (scale_up fuel (2 * x)))"

fun scale_down :: "nat \<Rightarrow> real \<Rightarrow> nat" where
  "scale_down 0 x = 0"
| "scale_down (Suc fuel) x = (if x < 2 ^ 53 then 0 else Suc (scale_down fuel (x / 2)))"

definition round64 :: "real \<Rightarrow> real" where
  "round64 x =
     (if x = 0 then 0
      else if \<bar>x\<bar> < 2 ^ 53 then
        (let k = scale_up 1074 \<bar>x\<bar>
         in sgn x * of_int (round_half_even (\<bar>x\<bar> * 2 ^ k)) / 2 ^ k)
      else
        (let k = scale_down 971 \<bar>x\<bar>
         in sgn x * of_int (round_half_even (\<bar>x\<bar> / 2 ^ k)) * 2 ^ k))"

text \<open>\<open>x + y\<close> on floats.\<close>

definition fadd :: "real \<Rightarrow> real \<Rightarrow> real" where
  "fadd x y = round64 (x + y)"

text \<open>The decimal text of a natural number, as an f-string prints it.\<close>

fun str_of_nat :: "nat \<Rightarrow> string" where
  "str_of_nat n =
     (if n < 10 then [''0123456789'' ! n]
      else str_of_nat (n div 10) @ [''0123456789'' ! (n mod 10)])"

section \<open>The alerting system (ml\_alerting\_system.py)\<close>

datatype severity = CRITICAL | HIGH | MEDIUM | LOW

text \<open>The dict \<open>alert_thresholds\<close>, one entry per severity name.\<close>

record alert_thresholds =
  th_CRITICAL :: real
  th_HIGH :: real
  th_MEDIUM :: real
  th_LOW :: real

definition default_thresholds :: alert_thresholds where
  "default_thresholds =
     \<lparr>th_CRITICAL = 0.9, th_HIGH = 0.7, th_MEDIUM = 0.5, th_LOW = 0.3\<rparr>"

text \<open>\<open>_get_severity_level\<close>: three comparisons, and LOW in the final \<open>else\<close>.\<close>

definition get_severity_level :: "alert_thresholds \<Rightarrow> real \<Rightarrow> severity" where
  "get_severity_level th risk_score =
     (if risk_score \<ge> th_CRITICAL th then CRITICAL
      else if risk_score \<ge> th_HIGH th then HIGH
      else if risk_score \<ge> th_MEDIUM th then MEDIUM
      else LOW)"

text \<open>
  \<open>_calculate_risk_score\<close>. \<open>.lower()\<close> exists on strings only, and \<open>status >= 400\<close>
  is defined for numbers only; anything else raises. The score starts at \<open>0.0\<close> and each
  \<open>+=\<close> is a float addition of a float literal. The value drawn by
  \<open>random.uniform(0, 0.4)\<close> is the input \<open>rnd\<close>.
\<close>

definition py_lower :: "pyval \<Rightarrow> py_error + string" where
  "py_lower v = (case v of PyStr s \<Rightarrow> Inr (lower s) | _ \<Rightarrow> Inl AttributeError)"

definition py_ge_400 :: "pyval \<Rightarrow> py_error + bool" where
  "py_ge_400 v =
     (case v of PyInt n \<Rightarrow> Inr (n \<ge> 400) | PyFloat x \<Rightarrow> Inr (x \<ge> 400)
      | _ \<Rightarrow> Inl TypeError)"

definition any_pattern_in :: "string list \<Rightarrow> string \<Rightarrow> bool" where
  "any_pattern_in patterns s = list_ex (\<lambda>pattern. contains pattern s) patterns"

definition calculate_risk_score :: "event \<Rightarrow> real \<Rightarrow> py_error + real" where
  "calculate_risk_score ev rnd =
     try_bind (py_lower (dict_get (ev_fields ev) ''url'' (PyStr []))) (\<lambda>url.
     try_bind (py_lower (dict_get (ev_fields ev) ''user_agent'' (PyStr []))) (\<lambda>user_agent.
       let method = dict_get (ev_fields ev) ''method'' (PyStr ''GET'');
           status = dict_get (ev_fields ev) ''status_code'' (PyInt 200);
           r0 = 0;
           r1 = (if any_pattern_in [''script'', ''alert'', ''union'', ''select'', ''../''] url
                 then fadd r0 (round64 0.3) else r0);
           r2 = (if any_pattern_in [''curl'', ''wget'', ''sqlmap'', ''nikto''] user_agent
                 then fadd r1 (round64 0.2) else r1);
           r3 = (if method \<in> set [PyStr ''PUT'', PyStr ''DELETE'', PyStr ''PATCH'']
                 then fadd r2 (round64 0.1) else r2)
       in try_bind (py_ge_400 status) (\<lambda>ge.
            let r4 = (if ge then fadd r3 (round64 0.1) else r3)
            in Inr (min (fadd r4 rnd) 1.0))))"

text \<open>The alert dict built in \<open>check_ml_anomalies\<close>.\<close>

record anomaly =
  anomaly_timestamp :: nat
  risk_score :: real
  anomaly_severity :: severity
  ip_address :: pyval
  user_agent :: pyval
  attack_type :: pyval
  threat_level :: pyval
  country :: pyval
  request_uri :: pyval

text \<open>
  The body of the loop of \<open>check_ml_anomalies\<close> for one event: the score, the gate
  \<open>risk_score >= alert_thresholds['MEDIUM']\<close>, and the alert when the gate is passed.
\<close>

definition alert_for_event ::
  "alert_thresholds \<Rightarrow> event \<Rightarrow> real \<Rightarrow> nat \<Rightarrow> py_error + anomaly option" where
  "alert_for_event th ev rnd now =
     try_bind (calculate_risk_score ev rnd) (\<lambda>score.
       if score \<ge> th_MEDIUM th then
         Inr (Some \<lparr>anomaly_timestamp = get_timestamp ev now,
                    risk_score = score,
                    anomaly_severity = get_severity_level th score,
                    ip_address = dict_get (ev_fields ev) ''remote_addr''
                                   (dict_get (ev_fields ev) ''ip_address'' (PyStr ''N/A'')),
                    user_agent = dict_get (ev_fields ev) ''user_agent''
                                   (dict_get (ev_fields ev) ''http_user_agent'' (PyStr ''N/A'')),
                    attack_type = dict_get (ev_fields ev) ''attack_type'' (PyStr ''Unknown''),
                    threat_level = dict_get (ev_fields ev) ''threat_level'' (PyStr ''Unknown''),
                    country = dict_get (ev_fields ev) ''country'' (PyStr ''Unknown''),
                    request_uri = dict_get (ev_fields ev) ''url''
                                    (dict_get (ev_fields ev) ''request_uri'' (PyStr ''N/A''))\<rparr>)
       else Inr None)"

text \<open>
  The loop over \<open>recent_data\<close>. Each element carries the event, its random draw and the
  clock reading. The state is the list \<open>anomalies\<close> and the dict \<open>alert_counts\<close>. A raise
  ends the loop with the counts as they are at that moment.
\<close>

fun check_events ::
  "alert_thresholds \<Rightarrow> (event \<times> real \<times> nat) list \<Rightarrow> anomaly list \<Rightarrow> (severity \<Rightarrow> nat)
     \<Rightarrow> (py_error + anomaly list) \<times> (severity \<Rightarrow> nat)" where
  "check_events th [] anomalies alert_counts = (Inr anomalies, alert_counts)"
| "check_events th ((ev, rnd, now) # rest) anomalies alert_counts =
     (case alert_for_event th ev rnd now of
        Inl e \<Rightarrow> (Inl e, alert_counts)
      | Inr None \<Rightarrow> check_events th rest anomalies alert_counts
      | Inr (Some a) \<Rightarrow>
          check_events th rest (anomalies @ [a])
            (alert_counts(anomaly_severity a := alert_counts (anomaly_severity a) + 1)))"

text \<open>
  \<open>_generate_synthetic_anomalies\<close> fabricates \<open>random.randint(1, 5)\<close> alerts. The draws
  of one alert are kept together: the score from \<open>random.uniform(0.5, 1.0)\<close>, the last
  part of the address from \<open>random.randint(1, 255)\<close>, and the positions that
  \<open>random.choice\<close> picks in its four lists. The list of draws has one element per
  fabricated alert.
\<close>

record synthetic_draw =
  sd_risk_score :: real
  sd_ip :: nat
  sd_user_agent :: nat
  sd_attack_type :: nat
  sd_country :: nat
  sd_request_uri :: nat

definition choice :: "string list \<Rightarrow> nat \<Rightarrow> pyval" where
  "choice xs i = PyStr (xs ! (i mod length xs))"

definition severity_name :: "severity \<Rightarrow> string" where
  "severity_name s =
     (case s of CRITICAL \<Rightarrow> ''CRITICAL'' | HIGH \<Rightarrow> ''HIGH'' | MEDIUM \<Rightarrow> ''MEDIUM''
      | LOW \<Rightarrow> ''LOW'')"

definition synthetic_anomaly :: "alert_thresholds \<Rightarrow> nat \<Rightarrow> synthetic_draw \<Rightarrow> anomaly" where
  "synthetic_anomaly th now d =
     \<lparr>anomaly_timestamp = now,
      risk_score = sd_risk_score d,
      anomaly_severity = get_severity_level th (sd_risk_score d),
      ip_address = PyStr (''192.168.1.'' @ str_of_nat (sd_ip d)),
      user_agent = choice [''curl/7.0'', ''sqlmap/1.0'', ''Mozilla/5.0''] (sd_user_agent d),
      attack_type = choice [''SQL Injection'', ''XSS'', ''Directory Traversal'']
                      (sd_attack_type d),
      threat_level = PyStr (severity_name (get_severity_level th (sd_risk_score d))),
      country = choice [''Unknown'', ''US'', ''CN''] (sd_country d),
      request_uri = choice [''/admin'', ''/login.php'', ''/upload.php''] (sd_request_uri d)\<rparr>"

fun generate_synthetic_anomalies ::
  "alert_thresholds \<Rightarrow> nat \<Rightarrow> synthetic_draw list \<Rightarrow> anomaly list \<Rightarrow> (severity \<Rightarrow> nat)
     \<Rightarrow> anomaly list \<times> (severity \<Rightarrow> nat)" where
  "generate_synthetic_anomalies th now [] anomalies alert_counts = (anomalies, alert_counts)"
| "generate_synthetic_anomalies th now (d # rest) anomalies alert_counts =
     (let a = synthetic_anomaly th now d
      in generate_synthetic_anomalies th now rest (anomalies @ [a])
           (alert_counts(anomaly_severity a := alert_counts (anomaly_severity a) + 1)))"

text \<open>
  \<open>check_ml_anomalies\<close>. The input \<open>source\<close> is \<open>None\<close> when \<open>es_utility\<close> is not
  initialised, the raise of \<open>search_data\<close>, or the batch it returned, each event with
  its draw and clock reading. Without utility, without data and after any raise the
  function returns the fabricated alerts; \<open>draws\<close> and \<open>now\<close> are what the generator
  draws and reads then.
\<close>

definition check_ml_anomalies ::
  "alert_thresholds \<Rightarrow> (py_error + (event \<times> real \<times> nat) list) option
     \<Rightarrow> synthetic_draw list \<Rightarrow> nat \<Rightarrow> (severity \<Rightarrow> nat)
     \<Rightarrow> anomaly list \<times> (severity \<Rightarrow> nat)" where
  "check_ml_anomalies th source draws now alert_counts =
     (case source of
        None \<Rightarrow> generate_synthetic_anomalies th now draws [] alert_counts
      | Some (Inl e) \<Rightarrow> generate_synthetic_anomalies th now draws [] alert_counts
      | Some (Inr recent_data) \<Rightarrow>
          if recent_data = [] then generate_synthetic_anomalies th now draws [] alert_counts
          else
            (case check_events th recent_data [] alert_counts of
               (Inr anomalies, counts) \<Rightarrow> (anomalies, counts)
             | (Inl e, counts) \<Rightarrow> generate_synthetic_anomalies th now draws [] counts))"

section \<open>The inference engine (realtime\_ml\_inference.py)\<close>

text \<open>
  A trained detector is a black box loaded from disk. Its methods may raise; an attribute
  may be absent (\<open>hasattr\<close>). A feature vector is the single row handed to the detectors.
\<close>

type_synonym fvec = "pyval list"

record model =
  has_predict :: bool
  predict :: "fvec \<Rightarrow> py_error + int"
  decision_function :: "fvec \<Rightarrow> py_error + real"
  fit_predict :: "fvec \<Rightarrow> py_error + int"
  negative_outlier_factor :: "fvec \<Rightarrow> real option"

text \<open>\<open>model.predict(x)\<close>: an absent attribute raises AttributeError.\<close>

definition call_predict :: "model \<Rightarrow> fvec \<Rightarrow> py_error + int" where
  "call_predict m fv = (if has_predict m then predict m fv else Inl AttributeError)"

record inference_engine =
  optimized_models :: "string \<rightharpoonup> model"
  optimized_scaler :: "(fvec \<Rightarrow> py_error + fvec) option"
  feature_columns :: "string list"

subsection \<open>Feature engineering\<close>

text \<open>
  \<open>_engineer_features_single_record\<close> builds a one-row DataFrame whose columns are the
  keys of the record; the row is the map from column name to value.

  \<open>df.get('method', 'GET')\<close> is the column when the key exists and the string \<open>'GET'\<close>
  otherwise; a string has no \<open>.map\<close>, so the next call raises AttributeError.
  \<open>Series.map(dict)\<close> gives NaN for a value that is not a key, and \<open>fillna(6)\<close> makes it 6.
\<close>

definition method_codes :: "(string \<times> int) list" where
  "method_codes = [(''GET'', 0), (''POST'', 1), (''PUT'', 2), (''DELETE'', 3),
                   (''HEAD'', 4), (''OPTIONS'', 5)]"

definition method_encoded :: "pyval \<Rightarrow> pyval" where
  "method_encoded v =
     (case v of
        PyStr s \<Rightarrow> (case map_of method_codes s of Some c \<Rightarrow> PyInt c | None \<Rightarrow> PyInt 6)
      | _ \<Rightarrow> PyInt 6)"

definition bool_int :: "bool \<Rightarrow> pyval" where
  "bool_int b = PyInt (if b then 1 else 0)"

text \<open>
  The URL features. The \<open>.str\<close> accessor works on a column of strings (a missing value
  gives NaN, filled with 0) and raises AttributeError on a numeric column. The patterns
  are matched ignoring case.
\<close>

definition url_features :: "(string \<rightharpoonup> pyval) \<Rightarrow> py_error + (string \<rightharpoonup> pyval)" where
  "url_features df =
     (let url_col = (if df ''url'' \<noteq> None then ''url'' else ''url_path'') in
      case df url_col of
        None \<Rightarrow>
          Inr (df(''url_length'' \<mapsto> PyInt 0, ''has_script'' \<mapsto> PyInt 0,
                  ''has_sql'' \<mapsto> PyInt 0, ''has_traversal'' \<mapsto> PyInt 0))
      | Some (PyStr s) \<Rightarrow>
          Inr (df(''url_length'' \<mapsto> PyInt (int (length s)),
                  ''has_script'' \<mapsto> bool_int (contains ''<script>'' (lower s)),
                  ''has_sql'' \<mapsto> bool_int (any_pattern_in
                                  [[CHR 0x27], ''--'', ''union'', ''select''] (lower s)),
                  ''has_traversal'' \<mapsto> bool_int (contains ''../'' (lower s))))
      | Some PyNone \<Rightarrow>
          Inr (df(''url_length'' \<mapsto> PyFloat 0, ''has_script'' \<mapsto> PyInt 0,
                  ''has_sql'' \<mapsto> PyInt 0, ''has_traversal'' \<mapsto> PyInt 0))
      | Some _ \<Rightarrow> Inl AttributeError)"

text \<open>\<open>if col not in df.columns: df[col] = 0\<close>.\<close>

definition with_default :: "string \<Rightarrow> (string \<rightharpoonup> pyval) \<Rightarrow> (string \<rightharpoonup> pyval)" where
  "with_default col df = (if df col = None then df(col \<mapsto> PyInt 0) else df)"

definition fillna :: "pyval \<Rightarrow> pyval" where
  "fillna v = (case v of PyNone \<Rightarrow> PyInt 0 | _ \<Rightarrow> v)"

text \<open>\<open>df[columns].fillna(0)\<close>: a column that does not exist raises KeyError.\<close>

fun select_columns :: "(string \<rightharpoonup> pyval) \<Rightarrow> string list \<Rightarrow> py_error + fvec" where
  "select_columns df [] = Inr []"
| "select_columns df (c # cs) =
     (case df c of
        None \<Rightarrow> Inl KeyError
      | Some v \<Rightarrow> try_bind (select_columns df cs) (\<lambda>rest. Inr (fillna v # rest)))"

definition default_feature_columns :: "string list" where
  "default_feature_columns =
     [''status'', ''size'', ''risk_score'', ''response_time'',
      ''method_encoded'', ''url_length'', ''has_script'', ''has_sql'', ''has_traversal'']"

definition engineer_features_single_record :: "inference_engine \<Rightarrow> event \<Rightarrow> py_error + fvec" where
  "engineer_features_single_record eng log_record =
     (let df = ev_fields log_record in
      case df ''method'' of
        None \<Rightarrow> Inl AttributeError
      | Some m \<Rightarrow>
          try_bind (url_features (df(''method_encoded'' \<mapsto> method_encoded m))) (\<lambda>df2.
            let df3 = fold with_default
                        [''status'', ''size'', ''risk_score'', ''response_time''] df2
            in if feature_columns eng \<noteq> [] then select_columns df3 (feature_columns eng)
               else select_columns df3 default_feature_columns))"

definition prepare_feature_vector :: "inference_engine \<Rightarrow> event \<Rightarrow> py_error + fvec" where
  "prepare_feature_vector eng log_record =
     try_bind (engineer_features_single_record eng log_record) (\<lambda>df.
       case optimized_scaler eng of Some transform \<Rightarrow> transform df | None \<Rightarrow> Inr df)"

subsection \<open>Scoring one record\<close>

text \<open>The two dicts \<open>predictions\<close> and \<open>scores\<close>, in insertion order.\<close>

type_synonym votes = "(string \<times> int) list \<times> (string \<times> real) list"

text \<open>
  The isolation forest and the one-class SVM have the same block: when the detector is
  loaded, \<open>predict\<close> and \<open>decision_function\<close> are called with no handler around them.
\<close>

definition score_detector ::
  "string \<Rightarrow> (string \<rightharpoonup> model) \<Rightarrow> fvec \<Rightarrow> votes \<Rightarrow> py_error + votes" where
  "score_detector name models feature_vector vs =
     (case models name of
        None \<Rightarrow> Inr vs
      | Some m \<Rightarrow>
          try_bind (call_predict m feature_vector) (\<lambda>pred.
          try_bind (decision_function m feature_vector) (\<lambda>score.
            Inr (fst vs @ [(name, if pred = - 1 then 1 else 0)], snd vs @ [(name, score)]))))"

text \<open>
  The LOF block has its own handler: \<open>predict\<close> is called when the attribute exists,
  otherwise the prediction is \<open>-1\<close>; a raise records prediction 0 and score 1.0.
\<close>

definition score_lof :: "(string \<rightharpoonup> model) \<Rightarrow> fvec \<Rightarrow> votes \<Rightarrow> votes" where
  "score_lof models feature_vector vs =
     (case models ''lof_detector'' of
        None \<Rightarrow> vs
      | Some m \<Rightarrow>
          (case (if has_predict m then predict m feature_vector else Inr (- 1)) of
             Inr pred \<Rightarrow>
               (fst vs @ [(''lof_detector'', if pred = - 1 then 1 else 0)],
                snd vs @ [(''lof_detector'', if pred = - 1 then - 1.0 else 1.0)])
           | Inl e \<Rightarrow>
               (fst vs @ [(''lof_detector'', 0)], snd vs @ [(''lof_detector'', 1.0)])))"

definition score_models :: "(string \<rightharpoonup> model) \<Rightarrow> fvec \<Rightarrow> py_error + votes" where
  "score_models models feature_vector =
     try_bind (score_detector ''isolation_forest'' models feature_vector ([], [])) (\<lambda>vs1.
     try_bind (score_detector ''one_class_svm'' models feature_vector vs1) (\<lambda>vs2.
       Inr (score_lof models feature_vector vs2)))"

text \<open>Majority vote: \<open>sum(predictions.values()) / len(predictions)\<close>, or 0 for no prediction.\<close>

definition ensemble_vote :: "(string \<times> int) list \<Rightarrow> real" where
  "ensemble_vote predictions =
     (if predictions \<noteq> []
      then real_of_int (sum_list (map snd predictions)) / real (length predictions)
      else 0)"

definition risk_level_of :: "real \<Rightarrow> severity" where
  "risk_level_of score =
     (if score > 0.8 then CRITICAL
      else if score > 0.6 then HIGH
      else if score > 0.3 then MEDIUM
      else LOW)"

text \<open>
  The returned dict has one of two shapes: the verdict, or the pair of keys \<open>error\<close> and
  \<open>timestamp\<close> built by the handler around the whole body.
\<close>

record verdict =
  timestamp :: nat
  client_ip :: pyval
  url_path :: pyval
  status_code :: pyval
  is_anomaly :: bool
  ensemble_score :: real
  risk_level :: severity
  individual_predictions :: "(string \<times> int) list"
  individual_scores :: "(string \<times> real) list"

datatype score_result = Verdict verdict | ScoringFailed py_error nat

definition score_record :: "inference_engine \<Rightarrow> nat \<Rightarrow> event \<Rightarrow> score_result" where
  "score_record eng now log_record =
     (case try_bind (prepare_feature_vector eng log_record)
             (score_models (optimized_models eng)) of
        Inl e \<Rightarrow> ScoringFailed e (get_timestamp log_record now)
      | Inr (predictions, scores) \<Rightarrow>
          Verdict \<lparr>timestamp = get_timestamp log_record now,
                   client_ip = dict_get (ev_fields log_record) ''client_ip'' (PyStr ''unknown''),
                   url_path = dict_get (ev_fields log_record) ''url_path'' (PyStr ''unknown''),
                   status_code = dict_get (ev_fields log_record) ''status_code'' (PyStr ''unknown''),
                   is_anomaly = (ensemble_vote predictions > 0.5),
                   ensemble_score = ensemble_vote predictions,
                   risk_level = risk_level_of (ensemble_vote predictions),
                   individual_predictions = predictions,
                   individual_scores = scores\<rparr>)"

subsection \<open>The monitoring loop\<close>

text \<open>
  The state written by \<open>monitor_new_logs\<close>: the watermark \<open>last_processed_timestamp\<close>
  (\<open>None\<close> at start) and what has been printed.
\<close>

datatype log_line =
  Processing nat | AnomalyDetected verdict | NormalLine pyval pyval real
  | ErrorProcessing py_error | NoAnomalies | NoNewLogs | ErrorQuerying

record monitor_state =
  last_processed_timestamp :: "nat option"
  printed :: "log_line list"

text \<open>
  The event source answers the query the loop sends: the documents whose \<open>@timestamp\<close>
  is greater than the watermark (every document while there is no watermark), newest
  first with documents without the sort key last, at most 10 of them.
\<close>

definition matches_query :: "nat option \<Rightarrow> event \<Rightarrow> bool" where
  "matches_query wm d =
     (case wm of
        None \<Rightarrow> True
      | Some w \<Rightarrow> (case at_timestamp d of None \<Rightarrow> False | Some t \<Rightarrow> t > w))"

definition sort_rank :: "event \<Rightarrow> nat" where
  "sort_rank d = (case at_timestamp d of None \<Rightarrow> 0 | Some t \<Rightarrow> Suc t)"

definition es_search :: "event list \<Rightarrow> nat option \<Rightarrow> event list" where
  "es_search index wm = take 10 (rev (sort_key sort_rank (filter (matches_query wm) index)))"

text \<open>The loop \<open>for hit in reversed(hits)\<close>, with the counter \<open>anomalies_found\<close>.\<close>

fun process_hits ::
  "inference_engine \<Rightarrow> nat \<Rightarrow> event list \<Rightarrow> monitor_state \<Rightarrow> nat \<Rightarrow> monitor_state \<times> nat" where
  "process_hits eng now [] st anomalies_found = (st, anomalies_found)"
| "process_hits eng now (log_record # rest) st anomalies_found =
     (case score_record eng now log_record of
        ScoringFailed e t \<Rightarrow>
          process_hits eng now rest (st\<lparr>printed := printed st @ [ErrorProcessing e]\<rparr>)
            anomalies_found
      | Verdict v \<Rightarrow>
          (let st1 = st\<lparr>last_processed_timestamp := Some (timestamp v)\<rparr> in
           if is_anomaly v
           then process_hits eng now rest (st1\<lparr>printed := printed st1 @ [AnomalyDetected v]\<rparr>)
                  (anomalies_found + 1)
           else process_hits eng now rest
                  (st1\<lparr>printed := printed st1 @ [NormalLine (client_ip v) (url_path v)
                                                   (ensemble_score v)]\<rparr>)
                  anomalies_found))"

text \<open>
  One iteration of \<open>while True\<close>. Its input is the clock reading and the content of the
  index at that moment, or \<open>None\<close> when the query raises (time-out, no connection).
\<close>

definition monitor_cycle ::
  "inference_engine \<Rightarrow> nat \<times> event list option \<Rightarrow> monitor_state \<Rightarrow> monitor_state" where
  "monitor_cycle eng c st =
     (case snd c of
        None \<Rightarrow> st\<lparr>printed := printed st @ [ErrorQuerying]\<rparr>
      | Some index \<Rightarrow>
          (let hits = es_search index (last_processed_timestamp st) in
           if hits \<noteq> [] then
             (case process_hits eng (fst c) (rev hits)
                     (st\<lparr>printed := printed st @ [Processing (length hits)]\<rparr>) 0 of
                (st', anomalies_found) \<Rightarrow>
                  if anomalies_found = 0 then st'\<lparr>printed := printed st' @ [NoAnomalies]\<rparr>
                  else st')
           else st\<lparr>printed := printed st @ [NoNewLogs]\<rparr>))"

fun monitor_new_logs ::
  "inference_engine \<Rightarrow> (nat \<times> event list option) list \<Rightarrow> monitor_state \<Rightarrow> monitor_state" where
  "monitor_new_logs eng [] st = st"
| "monitor_new_logs eng (c # cs) st = monitor_new_logs eng cs (monitor_cycle eng c st)"

text \<open>
  The events that were scored with success, in the order of processing: within one
  cycle, and over a whole run.
\<close>

fun verdicts_of :: "inference_engine \<Rightarrow> nat \<Rightarrow> event list \<Rightarrow> verdict list" where
  "verdicts_of eng now [] = []"
| "verdicts_of eng now (log_record # rest) =
     (case score_record eng now log_record of
        Verdict v \<Rightarrow> v # verdicts_of eng now rest
      | ScoringFailed e t \<Rightarrow> verdicts_of eng now rest)"

definition cycle_verdicts ::
  "inference_engine \<Rightarrow> nat \<times> event list option \<Rightarrow> monitor_state \<Rightarrow> verdict list" where
  "cycle_verdicts eng c st =
     (case snd c of
        None \<Rightarrow> []
      | Some index \<Rightarrow>
          verdicts_of eng (fst c) (rev (es_search index (last_processed_timestamp st))))"

fun processed_events ::
  "inference_engine \<Rightarrow> (nat \<times> event list option) list \<Rightarrow> monitor_state \<Rightarrow> verdict list" where
  "processed_events eng [] st = []"
| "processed_events eng (c # cs) st =
     cycle_verdicts eng c st @ processed_events eng cs (monitor_cycle eng c st)"

section \<open>The real-time monitor (realtime\_ml\_monitor.py)\<close>

text \<open>
  \<open>self.models\<close> is a dict in insertion order; \<open>label_encoders.get('request_method')\<close>
  is the label encoder of the request method when one was loaded.
\<close>

record ml_monitor =
  models :: "(string \<times> model) list"
  scaler :: "(fvec \<Rightarrow> py_error + fvec) option"
  request_method_encoder :: "(pyval \<Rightarrow> py_error + int) option"

text \<open>Hour of the day and day of the week (Monday is 0) of a time in seconds since 1970.\<close>

definition hour_of :: "nat \<Rightarrow> nat" where
  "hour_of t = (t div 3600) mod 24"

definition weekday_of :: "nat \<Rightarrow> nat" where
  "weekday_of t = (t div 86400 + 3) mod 7"

text \<open>
  The body of the \<open>try\<close> of \<open>engineer_features\<close>: the temporal features come from the
  event's timestamp, or from the clock when it has none; \<open>user_agent.lower()\<close> raises on
  a value that is not a string; an unknown label makes the encoder raise, which the inner
  handler turns into 0; the scaler may raise.
\<close>

definition engineer_features_body :: "ml_monitor \<Rightarrow> nat \<Rightarrow> event \<Rightarrow> py_error + fvec" where
  "engineer_features_body mon now ev =
     (let t = get_timestamp ev now;
          hour_of_day = hour_of t;
          day_of_week = weekday_of t
      in case dict_get (ev_fields ev) ''http_user_agent'' (PyStr []) of
           PyStr ua \<Rightarrow>
             (let method = dict_get (ev_fields ev) ''request_method'' (PyStr ''GET'');
                  encoded = (case request_method_encoder mon of
                               Some transform \<Rightarrow>
                                 (case transform method of Inr c \<Rightarrow> PyInt c | Inl e \<Rightarrow> PyInt 0)
                             | None \<Rightarrow> PyInt 0);
                  features =
                    [PyInt (int hour_of_day), PyInt (int day_of_week),
                     bool_int (day_of_week \<ge> 5),
                     bool_int (hour_of_day \<ge> 9 \<and> hour_of_day \<le> 17),
                     bool_int (hour_of_day \<ge> 22 \<or> hour_of_day \<le> 6),
                     bool_int (any_pattern_in [''bot'', ''crawler'', ''spider'', ''scraper'']
                                 (lower ua)),
                     bool_int (contains ''curl'' (lower ua)),
                     bool_int (any_pattern_in [''mobile'', ''android'', ''iphone''] (lower ua)),
                     PyInt (int (length ua)),
                     bool_int (method = PyStr ''GET''),
                     bool_int (method = PyStr ''POST''),
                     bool_int (method \<in> set [PyStr ''PUT'', PyStr ''DELETE'', PyStr ''PATCH'',
                                               PyStr ''TRACE'', PyStr ''CONNECT'']),
                     encoded]
              in case scaler mon of Some transform \<Rightarrow> transform features | None \<Rightarrow> Inr features)
         | _ \<Rightarrow> Inl AttributeError)"

text \<open>\<open>engineer_features\<close>: the handler returns the zero vector \<open>np.zeros((1, 13))\<close>.\<close>

definition engineer_features :: "ml_monitor \<Rightarrow> nat \<Rightarrow> event \<Rightarrow> fvec" where
  "engineer_features mon now ev =
     (case engineer_features_body mon now ev of
        Inr features \<Rightarrow> features
      | Inl e \<Rightarrow> replicate 13 (PyFloat 0))"

text \<open>\<open>d[k] = v\<close> on a dict kept in insertion order.\<close>

fun dict_set :: "('k \<times> 'v) list \<Rightarrow> 'k \<Rightarrow> 'v \<Rightarrow> ('k \<times> 'v) list" where
  "dict_set [] k v = [(k, v)]"
| "dict_set ((k', v') # d) k v =
     (if k' = k then (k, v) # d else (k', v') # dict_set d k v)"

text \<open>
  The \<open>try\<close> body of the loop over the models: the prediction and the score of one
  model, nothing for a name outside the three branches, or the raise.
\<close>

definition run_model :: "string \<Rightarrow> model \<Rightarrow> fvec \<Rightarrow> py_error + (int \<times> real) option" where
  "run_model model_name m features =
     (if model_name = ''isolation_forest'' \<or> model_name = ''one_class_svm'' then
        try_bind (call_predict m features) (\<lambda>pred.
        try_bind (decision_function m features) (\<lambda>score. Inr (Some (pred, score))))
      else if model_name = ''lof_detector'' then
        try_bind (fit_predict m features) (\<lambda>pred.
          Inr (Some (pred, case negative_outlier_factor m features of
                             Some score \<Rightarrow> score | None \<Rightarrow> - 1.0)))
      else Inr None)"

text \<open>
  The loop with its handler: a model that raises is recorded with prediction 1
  (the source's comment: normal by default) and score 0.0.
\<close>

fun predict_models :: "(string \<times> model) list \<Rightarrow> fvec \<Rightarrow> votes \<Rightarrow> votes" where
  "predict_models [] features vs = vs"
| "predict_models ((model_name, m) # rest) features (predictions, scores) =
     predict_models rest features
       (case run_model model_name m features of
          Inr (Some (pred, score)) \<Rightarrow>
            (dict_set predictions model_name pred, dict_set scores model_name score)
        | Inr None \<Rightarrow> (predictions, scores)
        | Inl e \<Rightarrow> (dict_set predictions model_name 1, dict_set scores model_name 0.0))"

record prediction =
  pred_is_anomaly :: bool
  pred_ensemble_score :: real
  pred_risk_level :: severity
  model_predictions :: "(string \<times> int) list"
  model_scores :: "(string \<times> real) list"
  pred_timestamp :: nat

text \<open>
  \<open>predict_anomaly\<close>. Every call that can raise sits inside the handler of the loop or
  inside \<open>engineer_features\<close>, so the outer handler of the source is never entered.
\<close>

definition predict_anomaly :: "ml_monitor \<Rightarrow> nat \<Rightarrow> event \<Rightarrow> prediction" where
  "predict_anomaly mon now ev =
     (let features = engineer_features mon now ev;
          predictions = fst (predict_models (models mon) features ([], []));
          scores = snd (predict_models (models mon) features ([], []));
          anomaly_votes = length (filter (\<lambda>p. snd p = - 1) predictions);
          total_models = length predictions;
          score = (if total_models > 0 then real anomaly_votes / real total_models else 0)
      in \<lparr>pred_is_anomaly = (real anomaly_votes > real total_models / 2),
          pred_ensemble_score = score,
          pred_risk_level = (if score \<ge> 0.75 then CRITICAL
                             else if score \<ge> 0.5 then HIGH
                             else if score \<ge> 0.25 then MEDIUM
                             else LOW),
          model_predictions = predictions,
          model_scores = scores,
          pred_timestamp = now\<rparr>)"

section \<open>The training-time ensemble (advanced\_ml\_detector.py)\<close>

text \<open>
  The branch of \<open>create_ensemble_score\<close> for the local outlier factor:
  \<open>scores = 1 / (1 + np.exp(-raw_scores))\<close>, element by element.
\<close>

definition lof_scores :: "real list \<Rightarrow> real list" where
  "lof_scores raw_scores = map (\<lambda>r. 1 / (1 + exp (- r))) raw_scores"

section \<open>Notions used by the properties\<close>

text \<open>
  The exception that leaves the block of the isolation forest or of the one-class SVM in
  \<open>score_record\<close>, if any: the block has no handler of its own.
\<close>

definition raised_by :: "string \<Rightarrow> (string \<rightharpoonup> model) \<Rightarrow> fvec \<Rightarrow> py_error option" where
  "raised_by name ms fv =
     (case ms name of
        None \<Rightarrow> None
      | Some m \<Rightarrow>
          (case call_predict m fv of
             Inl e \<Rightarrow> Some e
           | Inr pred \<Rightarrow> (case decision_function m fv of Inl e \<Rightarrow> Some e | Inr s \<Rightarrow> None)))"

text \<open>
  What \<open>predict_anomaly\<close> records for one model: its prediction, or 1 when it raised.
\<close>

definition recorded_prediction :: "fvec \<Rightarrow> string \<times> model \<Rightarrow> string \<times> int" where
  "recorded_prediction fv nm =
     (fst nm, case run_model (fst nm) (snd nm) fv of
                Inr (Some (pred, score)) \<Rightarrow> pred
              | _ \<Rightarrow> 1)"

text \<open>The alert that the loop of \<open>check_ml_anomalies\<close> adds for one element, if any.\<close>

definition alert_of :: "alert_thresholds \<Rightarrow> event \<times> real \<times> nat \<Rightarrow> anomaly option" where
  "alert_of th x =
     (case alert_for_event th (fst x) (fst (snd x)) (snd (snd x)) of
        Inr (Some a) \<Rightarrow> Some a
      | _ \<Rightarrow> None)"

definition known_model_names :: "string set" where
  "known_model_names = {''isolation_forest'', ''one_class_svm'', ''lof_detector''}"

text \<open>
  The majority vote in the words of the specification: the detectors reporting anomalous
  over the detectors that produced a verdict, a detector that raised being left out.
\<close>

definition spec_majority_vote :: "(string \<times> model) list \<Rightarrow> fvec \<Rightarrow> real" where
  "spec_majority_vote ms fv =
     (let verdicts = List.map_filter
            (\<lambda>nm. case run_model (fst nm) (snd nm) fv of
                     Inr (Some (pred, score)) \<Rightarrow> Some pred
                   | _ \<Rightarrow> None) ms
      in if verdicts = [] then 0
         else real (length (filter (\<lambda>pred. pred = - 1) verdicts)) / real (length verdicts))"

text \<open>
  The normalisation in the words of the specification: the logistic sigmoid of the
  negated native score.
\<close>

definition spec_lof_score :: "real \<Rightarrow> real" where
  "spec_lof_score r = 1 / (1 + exp (- (- r)))"

section \<open>Example data\<close>

definition model_raising :: model where
  "model_raising =
     \<lparr>has_predict = True, predict = (\<lambda>fv. Inl ModelError),
      decision_function = (\<lambda>fv. Inl ModelError), fit_predict = (\<lambda>fv. Inl ModelError),
      negative_outlier_factor = (\<lambda>fv. None)\<rparr>"

definition model_const :: "int \<Rightarrow> real \<Rightarrow> model" where
  "model_const pred score =
     \<lparr>has_predict = True, predict = (\<lambda>fv. Inr pred),
      decision_function = (\<lambda>fv. Inr score), fit_predict = (\<lambda>fv. Inr pred),
      negative_outlier_factor = (\<lambda>fv. Some score)\<rparr>"

definition ev_no_method :: event where
  "ev_no_method =
     \<lparr>at_timestamp = Some 5,
      ev_fields = [''url'' \<mapsto> PyStr ''/index.html'', ''status'' \<mapsto> PyInt 200]\<rparr>"

definition ev_get :: event where
  "ev_get =
     \<lparr>at_timestamp = Some 7,
      ev_fields = [''method'' \<mapsto> PyStr ''GET'', ''url'' \<mapsto> PyStr ''/index.html'',
                   ''status'' \<mapsto> PyInt 200]\<rparr>"

definition ev_undated :: event where
  "ev_undated =
     \<lparr>at_timestamp = None,
      ev_fields = [''method'' \<mapsto> PyStr ''GET'', ''url'' \<mapsto> PyStr ''/index.html'',
                   ''status'' \<mapsto> PyInt 200]\<rparr>"

definition ev_later :: event where
  "ev_later =
     \<lparr>at_timestamp = Some 12,
      ev_fields = [''method'' \<mapsto> PyStr ''GET'', ''url'' \<mapsto> PyStr ''/index.html'',
                   ''status'' \<mapsto> PyInt 200]\<rparr>"

definition ev_bad_url :: event where
  "ev_bad_url = \<lparr>at_timestamp = Some 3, ev_fields = [''url'' \<mapsto> PyInt 5]\<rparr>"

definition draw_one :: synthetic_draw where
  "draw_one =
     \<lparr>sd_risk_score = 3/4, sd_ip = 7, sd_user_agent = 0, sd_attack_type = 1,
      sd_country = 2, sd_request_uri = 0\<rparr>"

definition ev_all_factors :: event where
  "ev_all_factors =
     \<lparr>at_timestamp = Some 4,
      ev_fields = [''url'' \<mapsto> PyStr ''/q?a=select'', ''user_agent'' \<mapsto> PyStr ''curl/7.0'',
                   ''method'' \<mapsto> PyStr ''PUT'', ''status_code'' \<mapsto> PyInt 500]\<rparr>"

definition ev_probe :: event where
  "ev_probe =
     \<lparr>at_timestamp = Some 9,
      ev_fields = [''url'' \<mapsto> PyStr ''/q?a=SELECT'', ''user_agent'' \<mapsto> PyStr ''curl/7.0'']\<rparr>"

definition eng_no_models :: inference_engine where
  "eng_no_models =
     \<lparr>optimized_models = Map.empty, optimized_scaler = None, feature_columns = []\<rparr>"

definition eng_lof_raising :: inference_engine where
  "eng_lof_raising =
     \<lparr>optimized_models = [''lof_detector'' \<mapsto> model_raising], optimized_scaler = None,
      feature_columns = []\<rparr>"

definition eng_forest_raising :: inference_engine where
  "eng_forest_raising =
     \<lparr>optimized_models = [''isolation_forest'' \<mapsto> model_raising], optimized_scaler = None,
      feature_columns = []\<rparr>"

definition eng_svm :: inference_engine where
  "eng_svm =
     \<lparr>optimized_models = [''one_class_svm'' \<mapsto> model_const 1 0.2], optimized_scaler = None,
      feature_columns = []\<rparr>"

definition mon_no_models :: ml_monitor where
  "mon_no_models = \<lparr>models = [], scaler = None, request_method_encoder = None\<rparr>"

definition mon_one_failed :: ml_monitor where
  "mon_one_failed =
     \<lparr>models = [(''isolation_forest'', model_raising),
                (''one_class_svm'', model_const (- 1) (- 0.2))],
      scaler = None, request_method_encoder = None\<rparr>"

definition mon_all_failed :: ml_monitor where
  "mon_all_failed =
     \<lparr>models = [(''isolation_forest'', model_raising), (''one_class_svm'', model_raising),
                (''lof_detector'', model_raising)],
      scaler = None, request_method_encoder = None\<rparr>"

definition mon_forest_failed :: ml_monitor where
  "mon_forest_failed =
     \<lparr>models = [(''isolation_forest'', model_raising)],
      scaler = None, request_method_encoder = None\<rparr>"

definition mon_forest_normal :: ml_monitor where
  "mon_forest_normal =
     \<lparr>models = [(''isolation_forest'', model_const 1 0)],
      scaler = None, request_method_encoder = None\<rparr>"

definition st0 :: monitor_state where
  "st0 = \<lparr>last_processed_timestamp = None, printed = []\<rparr>"

section \<open>Properties of the alerting system\<close>

text \<open>
  C1 (as stated): with the default thresholds the classifier would answer LOW exactly on
  the band from 0.3 up to 0.5. It does not: the score 0.1 is below the band and is still
  classified LOW.
\<close>

theorem get_severity_level_low_band_counterexample:
  "\<not> (get_severity_level default_thresholds (1/10) = LOW
        \<longleftrightarrow> 3/10 \<le> (1/10 :: real) \<and> (1/10 :: real) < 5/10)"
  by (simp add: get_severity_level_def default_thresholds_def)

text \<open>
  C1 (amended): with the default thresholds the classifier answers CRITICAL exactly when
  the score is at least 0.9, HIGH exactly on [0.7, 0.9), MEDIUM exactly on [0.5, 0.7) and
  LOW exactly when the score is below 0.5; a score on a threshold belongs to the higher
  tier, so 0.9 is CRITICAL and 0.89999 is HIGH.
\<close>

theorem get_severity_level_bands:
  "(get_severity_level default_thresholds s = CRITICAL \<longleftrightarrow> 0.9 \<le> s) \<and>
   (get_severity_level default_thresholds s = HIGH \<longleftrightarrow> 0.7 \<le> s \<and> s < 0.9) \<and>
   (get_severity_level default_thresholds s = MEDIUM \<longleftrightarrow> 0.5 \<le> s \<and> s < 0.7) \<and>
   (get_severity_level default_thresholds s = LOW \<longleftrightarrow> s < 0.5) \<and>
   get_severity_level default_thresholds 0.9 = CRITICAL \<and>
   get_severity_level default_thresholds 0.89999 = HIGH"
  by (simp add: get_severity_level_def default_thresholds_def)

theorem get_severity_level_bands_witness:
  "get_severity_level default_thresholds 0.7 = HIGH \<and>
   get_severity_level default_thresholds 0.3 = LOW \<and>
   get_severity_level default_thresholds 0.1 = LOW"
  using get_severity_level_bands [of "0.7"] get_severity_level_bands [of "0.3"]
    get_severity_level_bands [of "0.1"]
  by simp

subsection \<open>Evaluation of float sums\<close>

lemma scale_up_eq:
  "k \<le> fuel \<Longrightarrow> 0 < x \<Longrightarrow> 2 ^ 52 \<le> x * 2 ^ k \<Longrightarrow> x * 2 ^ k < 2 ^ 53 \<Longrightarrow>
   scale_up fuel x = k"
proof (induction k arbitrary: fuel x)
  case 0
  then show ?case by (cases fuel) simp_all
next
  case (Suc k)
  from Suc.prems(1) obtain fuel' where f: "fuel = Suc fuel'" and k: "k \<le> fuel'"
    by (cases fuel) simp_all
  have "(1::real) \<le> 2 ^ k" by simp
  then have "x \<le> x * 2 ^ k" using Suc.prems(2) by simp
  moreover have "x * 2 ^ k * 2 < 2 ^ 53" using Suc.prems(4) by (simp add: mult.assoc)
  ultimately have small: "x < 2 ^ 52" by simp
  have "scale_up fuel' (2 * x) = k"
    using k Suc.prems by (intro Suc.IH) (simp_all add: mult.assoc mult.left_commute)
  with f small show ?case by simp
qed

lemma round64_eval:
  assumes "0 < x" and "2 ^ 52 \<le> x * 2 ^ k" and "x * 2 ^ k < 2 ^ 53" and "k \<le> 1074"
  shows "round64 x = of_int (round_half_even (x * 2 ^ k)) / 2 ^ k"
proof -
  have s: "scale_up 1074 x = k"
    using assms by (intro scale_up_eq) simp_all
  have "(1::real) \<le> 2 ^ k" by simp
  then have "x \<le> x * 2 ^ k" using assms(1) by simp
  then have "x < 2 ^ 53" using assms(3) by simp
  then show ?thesis using assms(1) s by (simp add: round64_def Let_def)
qed

lemma float_03: "round64 (3/10) = 5404319552844595 / 18014398509481984"
  by (subst round64_eval [of _ 54]) (simp_all add: round_half_even_def)

lemma float_02: "round64 (1/5) = 3602879701896397 / 18014398509481984"
  by (subst round64_eval [of _ 55]) (simp_all add: round_half_even_def)

lemma float_03_again:
  "round64 (5404319552844595 / 18014398509481984) = 5404319552844595 / 18014398509481984"
  by (subst round64_eval [of _ 54]) (simp_all add: round_half_even_def)

lemma float_three_eighths: "round64 (3/8) = 3/8"
  by (subst round64_eval [of _ 54]) (simp_all add: round_half_even_def)

lemma float_half: "round64 (1/2) = 1/2"
  by (subst round64_eval [of _ 53]) (simp_all add: round_half_even_def)

lemma float_three_quarters: "round64 (3/4) = 3/4"
  by (subst round64_eval [of _ 53]) (simp_all add: round_half_even_def)

lemmas float_eval =
  fadd_def float_03 float_02 float_03_again float_three_eighths float_half
  float_three_quarters

lemmas risk_score_eval =
  calculate_risk_score_def try_bind_def py_lower_def dict_get_def any_pattern_in_def
  lower_def lower_char_def py_ge_400_def Let_def

lemma risk_no_method: "calculate_risk_score ev_no_method (3/8) = Inr (3/8)"
  by (simp add: risk_score_eval ev_no_method_def float_eval)

lemma risk_probe_0: "calculate_risk_score ev_probe 0 = Inr (1/2)"
  by (simp add: risk_score_eval ev_probe_def float_eval)


text \<open>
  The sum \<open>0.3 + 0.2 + 0.1 + 0.1 + 0.2\<close>, added from left to right as the function does,
  is the double just below 0.9: the last addition is a tie and goes to the even
  significand.
\<close>

lemma float_01: "round64 (1/10) = 3602879701896397 / 36028797018963968"
  by (subst round64_eval [of _ 56]) (simp_all add: round_half_even_def)

lemma float_chain:
  "fadd (fadd (fadd (fadd (fadd 0 (round64 (3/10))) (round64 (1/5))) (round64 (1/10)))
     (round64 (1/10))) (round64 (1/5)) = 2026619832316723 / 2251799813685248"
proof -
  have s2: "fadd (fadd 0 (round64 (3/10))) (round64 (1/5)) = 1/2"
    by (simp add: float_eval)
  have s3: "fadd (1/2) (round64 (1/10)) = 5404319552844595 / 9007199254740992"
    unfolding fadd_def float_01
    by (subst round64_eval [of _ 53]) (simp_all add: round_half_even_def)
  have s4: "fadd (5404319552844595 / 9007199254740992) (round64 (1/10)) =
            3152519739159347 / 4503599627370496"
    unfolding fadd_def float_01
    by (subst round64_eval [of _ 53]) (simp_all add: round_half_even_def)
  have s5: "fadd (3152519739159347 / 4503599627370496) (round64 (1/5)) =
            2026619832316723 / 2251799813685248"
    unfolding fadd_def float_02
    by (subst round64_eval [of _ 53]) (simp_all add: round_half_even_def)
  show ?thesis by (simp only: s2 s3 s4 s5)
qed

lemma risk_all_factors:
  "calculate_risk_score ev_all_factors (round64 (1/5)) =
     Inr (2026619832316723 / 2251799813685248) \<and>
   (2026619832316723 / 2251799813685248 :: real) < 9/10 \<and>
   get_severity_level default_thresholds (2026619832316723 / 2251799813685248) = HIGH"
  by (simp add: calculate_risk_score_def try_bind_def py_lower_def dict_get_def
      any_pattern_in_def lower_def lower_char_def py_ge_400_def Let_def ev_all_factors_def
      float_chain get_severity_level_def default_thresholds_def)

lemma risk_bad_url: "calculate_risk_score ev_bad_url rnd = Inl AttributeError"
  by (simp add: calculate_risk_score_def try_bind_def py_lower_def dict_get_def ev_bad_url_def)

subsection \<open>The gate of the alerts\<close>

text \<open>
  C9 (as stated): an event whose risk score lies in the LOW band would get an alert of
  tier LOW. An event without risk factors and with the draw 0.375 has the score 0.375,
  inside the band, and \<open>check_ml_anomalies\<close> returns no alert for it and leaves the
  counters as they are.
\<close>

theorem check_ml_anomalies_low_band_counterexample:
  "calculate_risk_score ev_no_method (3/8) = Inr (3/8) \<and>
   3/10 \<le> (3/8 :: real) \<and> (3/8 :: real) < 5/10 \<and>
   check_ml_anomalies default_thresholds (Some (Inr [(ev_no_method, 3/8, 0)])) [] 0 (\<lambda>s. 0) =
     ([], (\<lambda>s. 0))"
  by (simp add: risk_no_method check_ml_anomalies_def alert_for_event_def try_bind_def
      default_thresholds_def)

lemma alert_for_event_cases:
  assumes "calculate_risk_score ev rnd = Inr r"
  shows "(alert_for_event th ev rnd now = Inr None \<longleftrightarrow> r < th_MEDIUM th) \<and>
         (th_MEDIUM th \<le> r \<longrightarrow>
            (\<exists>a. alert_for_event th ev rnd now = Inr (Some a) \<and> risk_score a = r \<and>
                 anomaly_severity a = get_severity_level th r \<and> anomaly_severity a \<noteq> LOW))"
  using assms by (auto simp add: alert_for_event_def try_bind_def get_severity_level_def)

lemma check_events_no_raise:
  assumes "\<forall>x \<in> set batch. \<exists>r. calculate_risk_score (fst x) (fst (snd x)) = Inr r"
  shows "fst (check_events th batch acc counts) = Inr (acc @ List.map_filter (alert_of th) batch)"
  using assms
proof (induction batch arbitrary: acc counts)
  case Nil
  show ?case by (simp add: List.map_filter_simps)
next
  case (Cons x batch)
  obtain ev rnd now where x: "x = (ev, rnd, now)" by (cases x)
  from Cons.prems x obtain r where r: "calculate_risk_score ev rnd = Inr r" by auto
  have rest: "\<forall>x \<in> set batch. \<exists>r. calculate_risk_score (fst x) (fst (snd x)) = Inr r"
    using Cons.prems by simp
  show ?case
  proof (cases "th_MEDIUM th \<le> r")
    case True
    then obtain a where a: "alert_for_event th ev rnd now = Inr (Some a)"
      using alert_for_event_cases [OF r] by blast
    then show ?thesis
      using x Cons.IH [OF rest] by (simp add: alert_of_def List.map_filter_simps)
  next
    case False
    then have "alert_for_event th ev rnd now = Inr None"
      using alert_for_event_cases [OF r] by simp
    then show ?thesis
      using x Cons.IH [OF rest] by (simp add: alert_of_def List.map_filter_simps)
  qed
qed

lemma check_ml_anomalies_no_raise:
  assumes "batch \<noteq> []"
    and "\<forall>x \<in> set batch. \<exists>r. calculate_risk_score (fst x) (fst (snd x)) = Inr r"
  shows "fst (check_ml_anomalies th (Some (Inr batch)) draws now counts) =
         List.map_filter (alert_of th) batch"
proof -
  have "fst (check_events th batch [] counts) = Inr (List.map_filter (alert_of th) batch)"
    using check_events_no_raise [OF assms(2), of th "[]" counts] by simp
  then show ?thesis
    using assms(1) by (cases "check_events th batch [] counts") (simp add: check_ml_anomalies_def)
qed

text \<open>
  C9 (amended): for any thresholds (the MEDIUM threshold is 0.5 by default), the loop of
  \<open>check_ml_anomalies\<close> creates an alert for an event exactly when its risk score is at
  least the MEDIUM threshold; the alert carries that score and the classifier's tier,
  which is never LOW; an event with a lower score, in the LOW band or below it, gets no
  alert. When the utility returns a batch that is not empty and no scoring raises, the
  function returns these alerts, one for each such event, in the order of the batch.
  Without utility, when the search raises, when the batch is empty and when the scoring
  of an event raises, it returns the alerts fabricated by
  \<open>_generate_synthetic_anomalies\<close> instead.
\<close>

theorem alert_gate_is_medium:
  "(calculate_risk_score ev rnd = Inr r \<longrightarrow>
      (alert_for_event th ev rnd now = Inr None \<longleftrightarrow> r < th_MEDIUM th) \<and>
      (th_MEDIUM th \<le> r \<longrightarrow>
         (\<exists>a. alert_for_event th ev rnd now = Inr (Some a) \<and> risk_score a = r \<and>
              anomaly_severity a = get_severity_level th r \<and> anomaly_severity a \<noteq> LOW))) \<and>
   (batch \<noteq> [] \<and>
    (\<forall>x \<in> set batch. \<exists>r. calculate_risk_score (fst x) (fst (snd x)) = Inr r) \<longrightarrow>
      fst (check_ml_anomalies th (Some (Inr batch)) draws now counts) =
        List.map_filter (alert_of th) batch) \<and>
   (source = None \<or> (\<exists>e. source = Some (Inl e)) \<or> source = Some (Inr []) \<longrightarrow>
      check_ml_anomalies th source draws now counts =
        generate_synthetic_anomalies th now draws [] counts) \<and>
   (batch \<noteq> [] \<and> fst (check_events th batch [] counts) = Inl e \<longrightarrow>
      check_ml_anomalies th (Some (Inr batch)) draws now counts =
        generate_synthetic_anomalies th now draws [] (snd (check_events th batch [] counts)))"
proof (intro conjI impI)
  assume "calculate_risk_score ev rnd = Inr r"
  then show "(alert_for_event th ev rnd now = Inr None) = (r < th_MEDIUM th)"
    using alert_for_event_cases by blast
next
  assume "calculate_risk_score ev rnd = Inr r" and "th_MEDIUM th \<le> r"
  then show "\<exists>a. alert_for_event th ev rnd now = Inr (Some a) \<and> risk_score a = r \<and>
              anomaly_severity a = get_severity_level th r \<and> anomaly_severity a \<noteq> LOW"
    using alert_for_event_cases by blast
next
  assume "batch \<noteq> [] \<and>
    (\<forall>x \<in> set batch. \<exists>r. calculate_risk_score (fst x) (fst (snd x)) = Inr r)"
  then show "fst (check_ml_anomalies th (Some (Inr batch)) draws now counts) =
        List.map_filter (alert_of th) batch"
    using check_ml_anomalies_no_raise by blast
next
  assume "source = None \<or> (\<exists>e. source = Some (Inl e)) \<or> source = Some (Inr [])"
  then show "check_ml_anomalies th source draws now counts =
        generate_synthetic_anomalies th now draws [] counts"
    by (auto simp add: check_ml_anomalies_def)
next
  assume "batch \<noteq> [] \<and> fst (check_events th batch [] counts) = Inl e"
  then show "check_ml_anomalies th (Some (Inr batch)) draws now counts =
        generate_synthetic_anomalies th now draws [] (snd (check_events th batch [] counts))"
    by (cases "check_events th batch [] counts") (simp add: check_ml_anomalies_def)
qed

theorem alert_gate_is_medium_witness:
  "calculate_risk_score ev_probe 0 = Inr (1/2) \<and>
   (\<exists>a. alert_for_event default_thresholds ev_probe 0 0 = Inr (Some a) \<and>
        risk_score a = 1/2 \<and> anomaly_severity a = MEDIUM) \<and>
   calculate_risk_score ev_no_method (3/8) = Inr (3/8) \<and>
   alert_for_event default_thresholds ev_no_method (3/8) 0 = Inr None \<and>
   map risk_score (fst (check_ml_anomalies default_thresholds
       (Some (Inr [(ev_no_method, 3/8, 0), (ev_probe, 0, 0)])) [draw_one] 0 (\<lambda>s. 0))) = [1/2] \<and>
   map risk_score (fst (check_ml_anomalies default_thresholds None [draw_one] 0 (\<lambda>s. 0))) =
     [3/4] \<and>
   fst (check_events default_thresholds [(ev_bad_url, 0, 0)] [] (\<lambda>s. 0)) = Inl AttributeError \<and>
   map risk_score (fst (check_ml_anomalies default_thresholds
       (Some (Inr [(ev_bad_url, 0, 0)])) [draw_one] 0 (\<lambda>s. 0))) = [3/4]"
proof -
  let ?th = default_thresholds
  let ?batch = "[(ev_no_method, 3/8, 0), (ev_probe, 0, 0)] :: (event \<times> real \<times> nat) list"
  let ?bad = "[(ev_bad_url, 0, 0)] :: (event \<times> real \<times> nat) list"
  have m: "th_MEDIUM ?th = 1/2" by (simp add: default_thresholds_def)
  have p: "\<exists>a. alert_for_event ?th ev_probe 0 0 = Inr (Some a) \<and> risk_score a = 1/2 \<and>
               anomaly_severity a = get_severity_level ?th (1/2) \<and> anomaly_severity a \<noteq> LOW"
    using alert_gate_is_medium [where th = ?th and ev = ev_probe and rnd = 0 and r = "1/2"
        and now = 0] risk_probe_0 m
    by simp
  have q: "alert_for_event ?th ev_no_method (3/8) 0 = Inr None"
    using alert_gate_is_medium [where th = ?th and ev = ev_no_method and rnd = "3/8"
        and r = "3/8" and now = 0] risk_no_method m
    by simp
  have "\<exists>r. calculate_risk_score ev_no_method (3/8) = Inr r"
    using risk_no_method by blast
  moreover have "\<exists>r. calculate_risk_score ev_probe 0 = Inr r"
    using risk_probe_0 by blast
  ultimately have ok:
    "\<forall>x \<in> set ?batch. \<exists>r. calculate_risk_score (fst x) (fst (snd x)) = Inr r"
    by simp
  have b: "fst (check_ml_anomalies ?th (Some (Inr ?batch)) [draw_one] 0 (\<lambda>s. 0)) =
           List.map_filter (alert_of ?th) ?batch"
    using alert_gate_is_medium [where th = ?th and batch = ?batch and draws = "[draw_one]"
        and now = 0 and counts = "\<lambda>s. 0"] ok
    by simp
  have b': "map risk_score (List.map_filter (alert_of ?th) ?batch) = [1/2]"
    using p q by (auto simp add: alert_of_def List.map_filter_simps)
  have s: "check_ml_anomalies ?th None [draw_one] 0 (\<lambda>s. 0) =
           generate_synthetic_anomalies ?th 0 [draw_one] [] (\<lambda>s. 0)"
    using alert_gate_is_medium [where th = ?th and source = None and draws = "[draw_one]"
        and now = 0 and counts = "\<lambda>s. 0"]
    by simp
  have g: "map risk_score (fst (generate_synthetic_anomalies ?th 0 [draw_one] [] counts)) = [3/4]"
    for counts
    by (simp add: synthetic_anomaly_def draw_one_def Let_def)
  have c: "fst (check_events ?th ?bad [] (\<lambda>s. 0)) = Inl AttributeError"
    by (simp add: alert_for_event_def try_bind_def risk_bad_url)
  have f: "check_ml_anomalies ?th (Some (Inr ?bad)) [draw_one] 0 (\<lambda>s. 0) =
           generate_synthetic_anomalies ?th 0 [draw_one] []
             (snd (check_events ?th ?bad [] (\<lambda>s. 0)))"
    using alert_gate_is_medium [where th = ?th and batch = ?bad and draws = "[draw_one]"
        and now = 0 and counts = "\<lambda>s. 0" and e = AttributeError] c
    by simp
  have p': "\<exists>a. alert_for_event ?th ev_probe 0 0 = Inr (Some a) \<and> risk_score a = 1/2 \<and>
                anomaly_severity a = MEDIUM"
  proof -
    have sev: "get_severity_level ?th (1/2) = MEDIUM"
      by (simp add: get_severity_level_def default_thresholds_def)
    from p obtain a where "alert_for_event ?th ev_probe 0 0 = Inr (Some a)"
      and "risk_score a = 1/2" and "anomaly_severity a = get_severity_level ?th (1/2)"
      by blast
    with sev show ?thesis by auto
  qed
  show ?thesis
    using p' q b b' s g c f risk_probe_0 risk_no_method by simp
qed

section \<open>Properties of scoring\<close>





text \<open>
  C7: the feature engineer must give a default to every absent field and always return a
  feature vector. In \<open>_engineer_features_single_record\<close> a record without the key
  \<open>method\<close> raises AttributeError, whatever the engine's configuration, and
  \<open>score_record\<close> reports the failure.
\<close>

theorem engineer_features_missing_method_raises:
  "engineer_features_single_record eng ev_no_method = Inl AttributeError \<and>
   score_record eng now ev_no_method = ScoringFailed AttributeError 5"
  by (simp add: engineer_features_single_record_def ev_no_method_def score_record_def
      prepare_feature_vector_def try_bind_def get_timestamp_def)

section \<open>Properties of the normalisation\<close>

lemma sigmoid_less: "a < b \<Longrightarrow> (1 / (1 + exp b) :: real) < 1 / (1 + exp a)"
proof -
  assume "a < b"
  then have "exp a < exp b" by simp
  moreover have "0 < 1 + exp a" by (simp add: add_pos_pos)
  ultimately show ?thesis by (simp add: frac_less2)
qed

text \<open>
  C5: the normalised score must be the sigmoid of the negated native score, so that a
  more negative factor gives a value nearer to 1. The code computes the sigmoid of the
  native score itself: the factor \<open>-3\<close> gets a smaller value than the factor \<open>-1\<close>, and
  a value below one half, where the specified function gives more than one half and
  orders the two the other way round.
\<close>

theorem lof_scores_polarity:
  "lof_scores [- 3, - 1] = [1 / (1 + exp 3), 1 / (1 + exp 1)] \<and>
   (1 / (1 + exp 3) :: real) < 1 / (1 + exp 1) \<and>
   (1 / (1 + exp 3) :: real) < 1 / 2 \<and>
   spec_lof_score (- 3) > 1 / 2 \<and> spec_lof_score (- 1) < spec_lof_score (- 3)"
proof -
  have a: "(1 / (1 + exp 3) :: real) < 1 / (1 + exp 1)"
    using sigmoid_less [of 1 3] by simp
  have b: "(1 / (1 + exp 3) :: real) < 1 / 2"
    using sigmoid_less [of 0 3] by simp
  have c: "(1 / (1 + exp (- 3)) :: real) > 1 / 2"
    using sigmoid_less [of "- 3" 0] by simp
  have d: "(1 / (1 + exp (- 1)) :: real) < 1 / (1 + exp (- 3))"
    using sigmoid_less [of "- 3" "- 1"] by simp
  show ?thesis
    using a b c d by (simp add: lof_scores_def spec_lof_score_def)
qed


section \<open>Properties of the monitoring loop\<close>

subsection \<open>Evaluation of the examples\<close>

lemmas score_eval =
  score_record_def prepare_feature_vector_def engineer_features_single_record_def
  try_bind_def url_features_def with_default_def fillna_def default_feature_columns_def
  method_encoded_def method_codes_def bool_int_def any_pattern_in_def lower_def lower_char_def
  score_models_def score_detector_def score_lof_def call_predict_def ensemble_vote_def
  risk_level_of_def get_timestamp_def dict_get_def

lemma score_ev_no_method:
  "score_record eng now ev_no_method = ScoringFailed AttributeError 5"
  by (simp add: engineer_features_single_record_def ev_no_method_def score_record_def
      prepare_feature_vector_def try_bind_def get_timestamp_def)

lemma score_ev_get_forest_raising:
  "score_record eng_forest_raising 0 ev_get = ScoringFailed ModelError 7"
  by (simp add: score_eval eng_forest_raising_def ev_get_def model_raising_def)

lemma score_ev_get_svm:
  "score_record eng_svm now ev_get =
     Verdict \<lparr>timestamp = 7, client_ip = PyStr ''unknown'', url_path = PyStr ''unknown'',
       status_code = PyStr ''unknown'', is_anomaly = False, ensemble_score = 0,
       risk_level = LOW, individual_predictions = [(''one_class_svm'', 0)],
       individual_scores = [(''one_class_svm'', 0.2)]\<rparr>"
  by (simp add: score_eval eng_svm_def ev_get_def model_const_def)

lemma score_ev_later_svm:
  "score_record eng_svm now ev_later =
     Verdict \<lparr>timestamp = 12, client_ip = PyStr ''unknown'', url_path = PyStr ''unknown'',
       status_code = PyStr ''unknown'', is_anomaly = False, ensemble_score = 0,
       risk_level = LOW, individual_predictions = [(''one_class_svm'', 0)],
       individual_scores = [(''one_class_svm'', 0.2)]\<rparr>"
  by (simp add: score_eval eng_svm_def ev_later_def model_const_def)

lemma score_ev_undated_svm:
  "score_record eng_svm 100 ev_undated =
     Verdict \<lparr>timestamp = 100, client_ip = PyStr ''unknown'', url_path = PyStr ''unknown'',
       status_code = PyStr ''unknown'', is_anomaly = False, ensemble_score = 0,
       risk_level = LOW, individual_predictions = [(''one_class_svm'', 0)],
       individual_scores = [(''one_class_svm'', 0.2)]\<rparr>"
  by (simp add: score_eval eng_svm_def ev_undated_def model_const_def)

lemma search_two: "es_search [ev_get, ev_no_method] None = [ev_get, ev_no_method]"
  by (simp add: es_search_def matches_query_def sort_rank_def ev_get_def ev_no_method_def)

lemma search_one: "es_search [ev_get] None = [ev_get]"
  by (simp add: es_search_def matches_query_def)

lemma search_undated: "es_search [ev_get, ev_undated] None = [ev_get, ev_undated]"
  by (simp add: es_search_def matches_query_def sort_rank_def ev_get_def ev_undated_def)

lemma search_later: "es_search [ev_get, ev_no_method, ev_later] (Some 7) = [ev_later]"
  by (simp add: es_search_def matches_query_def sort_rank_def ev_get_def ev_no_method_def
      ev_later_def)

lemma search_get_later: "es_search [ev_get, ev_later] None = [ev_later, ev_get]"
  by (simp add: es_search_def matches_query_def sort_rank_def ev_get_def ev_later_def)

subsection \<open>The watermark within a batch and within a cycle\<close>

lemma score_record_timestamp:
  "score_record eng now r = Verdict v \<Longrightarrow> timestamp v = get_timestamp r now"
  by (auto simp add: score_record_def split: sum.splits prod.splits)

lemma process_hits_append:
  "process_hits eng now (xs @ ys) st n =
     (case process_hits eng now xs st n of (st', n') \<Rightarrow> process_hits eng now ys st' n')"
  by (induction xs arbitrary: st n) (auto simp add: Let_def split: score_result.splits)

lemma process_hits_watermark:
  "last_processed_timestamp (fst (process_hits eng now hits st n)) =
     (if verdicts_of eng now hits = [] then last_processed_timestamp st
      else Some (timestamp (last (verdicts_of eng now hits))))"
  by (induction hits arbitrary: st n) (auto simp add: Let_def split: score_result.splits)

lemma es_search_matches:
  "d \<in> set (es_search index wm) \<Longrightarrow> matches_query wm d"
  by (auto simp add: es_search_def dest: in_set_takeD)

lemma verdicts_of_from_hits:
  "v \<in> set (verdicts_of eng now hits) \<Longrightarrow>
   \<exists>r \<in> set hits. score_record eng now r = Verdict v"
  by (induction hits) (auto split: score_result.splits)

lemma cycle_verdict_after_watermark:
  assumes "v \<in> set (cycle_verdicts eng c st)"
  shows "last_processed_timestamp st \<le> Some (timestamp v)"
proof (cases "snd c")
  case None
  with assms show ?thesis by (simp add: cycle_verdicts_def)
next
  case (Some index)
  with assms obtain r where r: "r \<in> set (es_search index (last_processed_timestamp st))"
    and v: "score_record eng (fst c) r = Verdict v"
    using verdicts_of_from_hits by (fastforce simp add: cycle_verdicts_def)
  have m: "matches_query (last_processed_timestamp st) r"
    using r by (rule es_search_matches)
  have t: "timestamp v = get_timestamp r (fst c)"
    using v by (rule score_record_timestamp)
  show ?thesis
  proof (cases "last_processed_timestamp st")
    case None
    then show ?thesis by simp
  next
    case (Some w)
    with m t show ?thesis
      by (auto simp add: matches_query_def get_timestamp_def split: option.splits)
  qed
qed

lemma monitor_cycle_watermark:
  "last_processed_timestamp (monitor_cycle eng c st) =
     (if cycle_verdicts eng c st = [] then last_processed_timestamp st
      else Some (timestamp (last (cycle_verdicts eng c st))))"
proof (cases "snd c")
  case None
  then show ?thesis by (simp add: monitor_cycle_def cycle_verdicts_def)
next
  case (Some index)
  show ?thesis
  proof (cases "es_search index (last_processed_timestamp st) = []")
    case True
    with Some show ?thesis by (simp add: monitor_cycle_def cycle_verdicts_def)
  next
    case False
    let ?st1 = "st\<lparr>printed := printed st @
                  [Processing (length (es_search index (last_processed_timestamp st)))]\<rparr>"
    have "last_processed_timestamp (monitor_cycle eng c st) =
            last_processed_timestamp (fst (process_hits eng (fst c)
              (rev (es_search index (last_processed_timestamp st))) ?st1 0))"
      using Some False by (simp add: monitor_cycle_def Let_def split: prod.splits)
    then show ?thesis
      using Some by (simp add: process_hits_watermark cycle_verdicts_def)
  qed
qed

lemma monitor_cycle_monotone:
  "last_processed_timestamp st \<le> last_processed_timestamp (monitor_cycle eng c st)"
proof (cases "cycle_verdicts eng c st = []")
  case True
  then show ?thesis by (simp add: monitor_cycle_watermark)
next
  case False
  then have "last (cycle_verdicts eng c st) \<in> set (cycle_verdicts eng c st)" by simp
  then have "last_processed_timestamp st \<le> Some (timestamp (last (cycle_verdicts eng c st)))"
    by (rule cycle_verdict_after_watermark)
  with False show ?thesis by (simp add: monitor_cycle_watermark)
qed

subsection \<open>The watermark over a run\<close>

lemma monitor_new_logs_append:
  "monitor_new_logs eng (cs @ cs') st = monitor_new_logs eng cs' (monitor_new_logs eng cs st)"
  by (induction cs arbitrary: st) auto

lemma monitor_new_logs_monotone:
  "last_processed_timestamp st \<le> last_processed_timestamp (monitor_new_logs eng cs st)"
proof (induction cs arbitrary: st)
  case Nil
  show ?case by simp
next
  case (Cons c cs)
  have "last_processed_timestamp st \<le> last_processed_timestamp (monitor_cycle eng c st)"
    by (rule monitor_cycle_monotone)
  also have "\<dots> \<le> last_processed_timestamp (monitor_new_logs eng cs (monitor_cycle eng c st))"
    by (rule Cons.IH)
  finally show ?case by simp
qed

lemma monitor_new_logs_last:
  "last_processed_timestamp (monitor_new_logs eng cs st) =
     (if processed_events eng cs st = [] then last_processed_timestamp st
      else Some (timestamp (last (processed_events eng cs st))))"
proof (induction cs arbitrary: st)
  case Nil
  show ?case by simp
next
  case (Cons c cs)
  show ?case
    by (simp add: Cons.IH monitor_cycle_watermark)
qed

subsection \<open>The order of processing inside a cycle\<close>

lemma verdicts_of_append:
  "verdicts_of eng now (xs @ ys) = verdicts_of eng now xs @ verdicts_of eng now ys"
  by (induction xs) (auto split: score_result.splits)

lemma processing_order_sorted:
  "sorted (map sort_rank (rev (es_search index wm)))"
proof -
  let ?S = "sort_key sort_rank (filter (matches_query wm) index)"
  have "rev (es_search index wm) = drop (length ?S - 10) ?S"
    by (simp add: es_search_def rev_take)
  moreover have "sorted (map sort_rank ?S)" by (rule sorted_sort_key)
  ultimately show ?thesis
    by (simp add: drop_map [symmetric] sorted_wrt_drop)
qed

lemma es_search_subset: "set (es_search index wm) \<subseteq> set index"
  by (auto simp add: es_search_def dest: in_set_takeD)

lemma hits_dated:
  assumes "wm \<noteq> None \<or> (\<forall>d \<in> set index. at_timestamp d \<noteq> None)"
    and "d \<in> set (es_search index wm)"
  shows "at_timestamp d \<noteq> None"
proof (cases wm)
  case None
  with assms es_search_subset show ?thesis by blast
next
  case (Some w)
  with es_search_matches [OF assms(2)] show ?thesis
    by (auto simp add: matches_query_def split: option.splits)
qed

lemma dated_rank: "at_timestamp d \<noteq> None \<Longrightarrow> sort_rank d = Suc (get_timestamp d now)"
  by (auto simp add: sort_rank_def get_timestamp_def)

lemma watermark_below_hit_verdict:
  assumes "r \<in> set (es_search index wm)" and "score_record eng now r = Verdict v"
  shows "wm \<le> Some (timestamp v)"
proof (cases wm)
  case None
  then show ?thesis by simp
next
  case (Some w)
  with es_search_matches [OF assms(1)] score_record_timestamp [OF assms(2)] show ?thesis
    by (auto simp add: matches_query_def get_timestamp_def split: option.splits)
qed

lemma watermark_within_cycle:
  assumes dated: "last_processed_timestamp st \<noteq> None \<or>
                  (\<forall>d \<in> set index. at_timestamp d \<noteq> None)"
    and split: "rev (es_search index (last_processed_timestamp st)) = pre @ mid @ rest"
  shows "last_processed_timestamp (fst (process_hits eng now pre st n))
           \<le> last_processed_timestamp (fst (process_hits eng now (pre @ mid) st n))"
proof (cases "verdicts_of eng now mid = []")
  case True
  then show ?thesis by (simp add: process_hits_watermark verdicts_of_append)
next
  case False
  let ?wm = "last_processed_timestamp st"
  let ?v' = "last (verdicts_of eng now mid)"
  have "?v' \<in> set (verdicts_of eng now mid)" using False by simp
  then obtain r' where r': "r' \<in> set mid" and v': "score_record eng now r' = Verdict ?v'"
    using verdicts_of_from_hits by blast
  have hit': "r' \<in> set (es_search index ?wm)"
    using r' split by (metis Un_iff set_append set_rev)
  have after: "last_processed_timestamp (fst (process_hits eng now (pre @ mid) st n)) =
               Some (timestamp ?v')"
    using False by (simp add: process_hits_watermark verdicts_of_append)
  show ?thesis
  proof (cases "verdicts_of eng now pre = []")
    case True
    then have "last_processed_timestamp (fst (process_hits eng now pre st n)) = ?wm"
      by (simp add: process_hits_watermark)
    with after watermark_below_hit_verdict [OF hit' v'] show ?thesis by simp
  next
    case nonempty: False
    let ?v = "last (verdicts_of eng now pre)"
    have "?v \<in> set (verdicts_of eng now pre)" using nonempty by simp
    then obtain r where r: "r \<in> set pre" and v: "score_record eng now r = Verdict ?v"
      using verdicts_of_from_hits by blast
    have hit: "r \<in> set (es_search index ?wm)"
      using r split by (metis Un_iff set_append set_rev)
    have "sorted (map sort_rank (pre @ mid @ rest))"
      using processing_order_sorted [of index ?wm] split by simp
    then have "sort_rank r \<le> sort_rank r'"
      using r r' by (auto simp add: sorted_append)
    moreover have "sort_rank r = Suc (get_timestamp r now)"
      using hits_dated [OF dated hit] by (rule dated_rank)
    moreover have "sort_rank r' = Suc (get_timestamp r' now)"
      using hits_dated [OF dated hit'] by (rule dated_rank)
    ultimately have "timestamp ?v \<le> timestamp ?v'"
      using score_record_timestamp [OF v] score_record_timestamp [OF v'] by simp
    moreover have "last_processed_timestamp (fst (process_hits eng now pre st n)) =
                   Some (timestamp ?v)"
      using nonempty by (simp add: process_hits_watermark)
    ultimately show ?thesis using after by simp
  qed
qed

lemma all_failed_no_verdicts:
  assumes "\<forall>r \<in> set hits. \<exists>e t. score_record eng now r = ScoringFailed e t"
  shows "verdicts_of eng now hits = []"
  using assms by (induction hits) auto

lemma all_failed_cycle:
  assumes "\<forall>r \<in> set (es_search index (last_processed_timestamp st)).
             \<exists>e t. score_record eng now r = ScoringFailed e t"
  shows "last_processed_timestamp (monitor_cycle eng (now, Some index) st) =
           last_processed_timestamp st"
proof -
  have "cycle_verdicts eng (now, Some index) st = []"
    using assms by (simp add: cycle_verdicts_def all_failed_no_verdicts)
  then show ?thesis by (simp add: monitor_cycle_watermark)
qed

text \<open>
  C4 (as stated): the watermark would never move backward. Inside a first cycle it can:
  the query without watermark also returns a document without \<open>@timestamp\<close>, which
  comes last in the answer and so first in the processing; scored at clock 100 it sets
  the watermark to 100, and the dated document processed after it sets the watermark
  back to 7.
\<close>

theorem watermark_backward_within_cycle_counterexample:
  "rev (es_search [ev_get, ev_undated] None) = [ev_undated, ev_get] \<and>
   last_processed_timestamp (fst (process_hits eng_svm 100 [ev_undated] st0 0)) = Some 100 \<and>
   last_processed_timestamp (fst (process_hits eng_svm 100 [ev_undated, ev_get] st0 0)) =
     Some 7 \<and>
   \<not> (Some 100 \<le> Some (7::nat))"
  by (simp add: search_undated score_ev_undated_svm score_ev_get_svm st0_def)

text \<open>
  C4 (amended): from one cycle to the next the watermark never moves backward: its value
  after any number of cycles is at most its value after any further cycles (an unset
  watermark counts as below every timestamp). After the cycles it is the timestamp of
  the last event that was scored with success, and the initial value while there is no
  such event. Inside a cycle it never moves backward either when the watermark is
  already set or every document of the index has \<open>@timestamp\<close>: the watermark after a
  part of the hits is at most the watermark after more of them.
\<close>

theorem watermark_monotone_and_last_processed:
  "last_processed_timestamp (monitor_new_logs eng cs st)
     \<le> last_processed_timestamp (monitor_new_logs eng (cs @ cs') st) \<and>
   last_processed_timestamp (monitor_new_logs eng cs st) =
     (if processed_events eng cs st = [] then last_processed_timestamp st
      else Some (timestamp (last (processed_events eng cs st)))) \<and>
   ((last_processed_timestamp st \<noteq> None \<or> (\<forall>d \<in> set index. at_timestamp d \<noteq> None)) \<and>
    rev (es_search index (last_processed_timestamp st)) = pre @ mid @ rest \<longrightarrow>
      last_processed_timestamp (fst (process_hits eng now pre st n))
        \<le> last_processed_timestamp (fst (process_hits eng now (pre @ mid) st n)))"
proof (intro conjI impI)
  show "last_processed_timestamp (monitor_new_logs eng cs st)
     \<le> last_processed_timestamp (monitor_new_logs eng (cs @ cs') st)"
    unfolding monitor_new_logs_append by (rule monitor_new_logs_monotone)
  show "last_processed_timestamp (monitor_new_logs eng cs st) =
     (if processed_events eng cs st = [] then last_processed_timestamp st
      else Some (timestamp (last (processed_events eng cs st))))"
    by (rule monitor_new_logs_last)
next
  assume "(last_processed_timestamp st \<noteq> None \<or> (\<forall>d \<in> set index. at_timestamp d \<noteq> None)) \<and>
    rev (es_search index (last_processed_timestamp st)) = pre @ mid @ rest"
  then show "last_processed_timestamp (fst (process_hits eng now pre st n))
        \<le> last_processed_timestamp (fst (process_hits eng now (pre @ mid) st n))"
    using watermark_within_cycle by blast
qed

theorem watermark_monotone_and_last_processed_witness:
  "last_processed_timestamp (monitor_new_logs eng_svm [(0, Some [ev_get, ev_no_method])] st0)
     \<le> last_processed_timestamp
         (monitor_new_logs eng_svm
            ([(0, Some [ev_get, ev_no_method])] @ [(1, Some [ev_get, ev_no_method, ev_later])])
            st0) \<and>
   last_processed_timestamp (monitor_new_logs eng_svm [(0, Some [ev_get, ev_no_method])] st0) =
     Some 7 \<and>
   last_processed_timestamp
     (monitor_new_logs eng_svm
        ([(0, Some [ev_get, ev_no_method])] @ [(1, Some [ev_get, ev_no_method, ev_later])])
        st0) = Some 12 \<and>
   at_timestamp ev_get \<noteq> None \<and> at_timestamp ev_later \<noteq> None \<and>
   rev (es_search [ev_get, ev_later] (last_processed_timestamp st0)) =
     [ev_get] @ [ev_later] @ [] \<and>
   last_processed_timestamp (fst (process_hits eng_svm 0 [ev_get] st0 0))
     \<le> last_processed_timestamp (fst (process_hits eng_svm 0 ([ev_get] @ [ev_later]) st0 0)) \<and>
   last_processed_timestamp (fst (process_hits eng_svm 0 [ev_get] st0 0)) = Some 7 \<and>
   last_processed_timestamp (fst (process_hits eng_svm 0 ([ev_get] @ [ev_later]) st0 0)) =
     Some 12"
proof -
  let ?c1 = "(0, Some [ev_get, ev_no_method]) :: nat \<times> event list option"
  let ?c2 = "(1, Some [ev_get, ev_no_method, ev_later]) :: nat \<times> event list option"
  have a: "last_processed_timestamp (monitor_new_logs eng_svm [?c1] st0)
           \<le> last_processed_timestamp (monitor_new_logs eng_svm ([?c1] @ [?c2]) st0)"
    using watermark_monotone_and_last_processed [where eng = eng_svm and cs = "[?c1]"
        and st = st0 and cs' = "[?c2]"]
    by (rule conjunct1)
  have b: "last_processed_timestamp (monitor_new_logs eng_svm [?c1] st0) = Some 7"
    by (simp add: monitor_cycle_def search_two score_ev_get_svm st0_def score_ev_no_method)
  have c: "last_processed_timestamp (monitor_new_logs eng_svm ([?c1] @ [?c2]) st0) = Some 12"
    by (simp add: monitor_cycle_def search_two search_later score_ev_get_svm
        score_ev_later_svm st0_def score_ev_no_method)
  have d: "at_timestamp ev_get \<noteq> None \<and> at_timestamp ev_later \<noteq> None"
    by (simp add: ev_get_def ev_later_def)
  have s: "rev (es_search [ev_get, ev_later] (last_processed_timestamp st0)) =
           [ev_get] @ [ev_later] @ []"
    by (simp add: search_get_later st0_def)
  have w: "last_processed_timestamp (fst (process_hits eng_svm 0 [ev_get] st0 0))
           \<le> last_processed_timestamp
               (fst (process_hits eng_svm 0 ([ev_get] @ [ev_later]) st0 0))"
    using watermark_monotone_and_last_processed [where st = st0
        and index = "[ev_get, ev_later]" and pre = "[ev_get]" and mid = "[ev_later]"
        and rest = "[]" and eng = eng_svm and now = 0 and n = 0] d s
    by simp
  have w1: "last_processed_timestamp (fst (process_hits eng_svm 0 [ev_get] st0 0)) = Some 7"
    by (simp add: score_ev_get_svm st0_def)
  have w2: "last_processed_timestamp
              (fst (process_hits eng_svm 0 ([ev_get] @ [ev_later]) st0 0)) = Some 12"
    by (simp add: score_ev_get_svm score_ev_later_svm st0_def)
  show ?thesis using a b c d s w w1 w2 by blast
qed

text \<open>
  C8 (as stated): the watermark would advance past an event whose scoring fails, so that
  the event is never fetched again. A cycle whose only hit fails (its detector raises)
  leaves the watermark unset, below the timestamp 7 of the event, prints the error, and
  the next query over the same index returns the event again.
\<close>

theorem failed_event_watermark_counterexample:
  "at_timestamp ev_get = Some 7 \<and>
   score_record eng_forest_raising 0 ev_get = ScoringFailed ModelError 7 \<and>
   monitor_cycle eng_forest_raising (0, Some [ev_get]) st0 =
     \<lparr>last_processed_timestamp = None,
      printed = [Processing 1, ErrorProcessing ModelError, NoAnomalies]\<rparr> \<and>
   es_search [ev_get]
     (last_processed_timestamp (monitor_cycle eng_forest_raising (0, Some [ev_get]) st0)) =
     [ev_get]"
  by (simp add: score_ev_get_forest_raising search_one monitor_cycle_def st0_def)
     (simp add: ev_get_def)

text \<open>
  C8 (amended): an event whose scoring fails is skipped and the error is printed: after
  whatever events came before it in the batch, processing it leaves the watermark and
  the anomaly counter as they were and adds the error line to the output. A failed
  event does not move the watermark: after a batch the watermark is the timestamp of
  the last event of the batch that was scored with success, and unchanged when there is
  none. A cycle in which every hit fails therefore leaves the watermark where it was,
  and the next query over the same index returns the same hits.
\<close>

theorem failed_event_skipped_and_logged:
  "(score_record eng now r = ScoringFailed e t \<longrightarrow>
      last_processed_timestamp (fst (process_hits eng now (pre @ [r]) st n)) =
        last_processed_timestamp (fst (process_hits eng now pre st n)) \<and>
      snd (process_hits eng now (pre @ [r]) st n) = snd (process_hits eng now pre st n) \<and>
      printed (fst (process_hits eng now (pre @ [r]) st n)) =
        printed (fst (process_hits eng now pre st n)) @ [ErrorProcessing e]) \<and>
   last_processed_timestamp (fst (process_hits eng now hits st n)) =
     (if verdicts_of eng now hits = [] then last_processed_timestamp st
      else Some (timestamp (last (verdicts_of eng now hits)))) \<and>
   ((\<forall>h \<in> set (es_search index (last_processed_timestamp st)).
       \<exists>e' t'. score_record eng now h = ScoringFailed e' t') \<longrightarrow>
      last_processed_timestamp (monitor_cycle eng (now, Some index) st) =
        last_processed_timestamp st \<and>
      es_search index (last_processed_timestamp (monitor_cycle eng (now, Some index) st)) =
        es_search index (last_processed_timestamp st))"
proof (intro conjI impI)
  assume f: "score_record eng now r = ScoringFailed e t"
  then show "last_processed_timestamp (fst (process_hits eng now (pre @ [r]) st n)) =
        last_processed_timestamp (fst (process_hits eng now pre st n))"
    by (simp add: process_hits_append split: prod.splits)
  from f show "snd (process_hits eng now (pre @ [r]) st n) = snd (process_hits eng now pre st n)"
    by (simp add: process_hits_append split: prod.splits)
  from f show "printed (fst (process_hits eng now (pre @ [r]) st n)) =
        printed (fst (process_hits eng now pre st n)) @ [ErrorProcessing e]"
    by (simp add: process_hits_append split: prod.splits)
next
  show "last_processed_timestamp (fst (process_hits eng now hits st n)) =
     (if verdicts_of eng now hits = [] then last_processed_timestamp st
      else Some (timestamp (last (verdicts_of eng now hits))))"
    by (rule process_hits_watermark)
next
  assume a: "\<forall>h \<in> set (es_search index (last_processed_timestamp st)).
       \<exists>e' t'. score_record eng now h = ScoringFailed e' t'"
  then show u: "last_processed_timestamp (monitor_cycle eng (now, Some index) st) =
        last_processed_timestamp st"
    by (rule all_failed_cycle)
  then show "es_search index (last_processed_timestamp (monitor_cycle eng (now, Some index) st)) =
        es_search index (last_processed_timestamp st)"
    by simp
qed

theorem failed_event_skipped_and_logged_witness:
  "score_record eng_forest_raising 0 ev_get = ScoringFailed ModelError 7 \<and>
   last_processed_timestamp (fst (process_hits eng_forest_raising 0 ([] @ [ev_get]) st0 0)) =
     None \<and>
   printed (fst (process_hits eng_forest_raising 0 ([] @ [ev_get]) st0 0)) =
     [ErrorProcessing ModelError] \<and>
   es_search [ev_get] (last_processed_timestamp st0) = [ev_get] \<and>
   last_processed_timestamp (monitor_cycle eng_forest_raising (0, Some [ev_get]) st0) = None \<and>
   es_search [ev_get]
     (last_processed_timestamp (monitor_cycle eng_forest_raising (0, Some [ev_get]) st0)) =
     [ev_get]"
proof -
  have s: "es_search [ev_get] (last_processed_timestamp st0) = [ev_get]"
    by (simp add: search_one st0_def)
  then have a: "\<forall>h \<in> set (es_search [ev_get] (last_processed_timestamp st0)).
       \<exists>e' t'. score_record eng_forest_raising 0 h = ScoringFailed e' t'"
    by (simp add: score_ev_get_forest_raising)
  have n: "last_processed_timestamp st0 = None" by (simp add: st0_def)
  have p: "printed st0 = []" by (simp add: st0_def)
  show ?thesis
    using failed_event_skipped_and_logged [where eng = eng_forest_raising and now = 0
        and r = ev_get and e = ModelError and t = 7 and pre = "[]" and st = st0 and n = 0
        and index = "[ev_get]" and hits = "[]"]
      score_ev_get_forest_raising s a n p
    by simp
qed

text \<open>
  C10 (as stated): any exception during model scoring would put the key \<open>error\<close> in the
  returned dict. With only the LOF detector loaded and its \<open>predict\<close> raising, the
  features are prepared, the detector raises, and \<open>score_record\<close> returns the normal
  verdict, the detector being recorded with prediction 0 and score 1.0.
\<close>

theorem score_record_lof_raise_counterexample:
  "optimized_models eng_lof_raising ''lof_detector'' = Some model_raising \<and>
   prepare_feature_vector eng_lof_raising ev_get =
     Inr [PyInt 200, PyInt 0, PyInt 0, PyInt 0, PyInt 0, PyInt 11, PyInt 0, PyInt 0, PyInt 0] \<and>
   predict model_raising
     [PyInt 200, PyInt 0, PyInt 0, PyInt 0, PyInt 0, PyInt 11, PyInt 0, PyInt 0, PyInt 0] =
     Inl ModelError \<and>
   score_record eng_lof_raising 0 ev_get =
     Verdict \<lparr>timestamp = 7, client_ip = PyStr ''unknown'', url_path = PyStr ''unknown'',
       status_code = PyStr ''unknown'', is_anomaly = False, ensemble_score = 0,
       risk_level = LOW, individual_predictions = [(''lof_detector'', 0)],
       individual_scores = [(''lof_detector'', 1)]\<rparr>"
  by (simp add: score_eval eng_lof_raising_def ev_get_def model_raising_def)

text \<open>
  C10 (amended): \<open>score_record\<close> is total: for every record it returns a dict and never
  raises. When an exception leaves the feature preparation, the isolation forest's block
  or the one-class SVM's block, the dict holds the error and the timestamp instead of
  the verdict fields; otherwise it is a verdict (an exception of the LOF detector is
  handled inside its block). A failed scoring modifies no monitoring state: the
  watermark and the anomaly counter stay as they were.
\<close>

theorem score_record_total:
  "(case prepare_feature_vector eng r of
      Inl e \<Rightarrow> score_record eng now r = ScoringFailed e (get_timestamp r now)
    | Inr fv \<Rightarrow>
        (case raised_by ''isolation_forest'' (optimized_models eng) fv of
           Some e \<Rightarrow> score_record eng now r = ScoringFailed e (get_timestamp r now)
         | None \<Rightarrow>
             (case raised_by ''one_class_svm'' (optimized_models eng) fv of
                Some e \<Rightarrow> score_record eng now r = ScoringFailed e (get_timestamp r now)
              | None \<Rightarrow> (\<exists>v. score_record eng now r = Verdict v \<and>
                               timestamp v = get_timestamp r now)))) \<and>
   (\<forall>e t. score_record eng now r = ScoringFailed e t \<longrightarrow>
      last_processed_timestamp (fst (process_hits eng now [r] st n)) =
        last_processed_timestamp st \<and>
      snd (process_hits eng now [r] st n) = n)"
  by (auto simp add: score_record_def try_bind_def score_models_def score_detector_def
      raised_by_def split: sum.splits option.splits prod.splits)

theorem score_record_total_witness:
  "score_record eng_forest_raising 0 ev_get = ScoringFailed ModelError 7 \<and>
   last_processed_timestamp (fst (process_hits eng_forest_raising 0 [ev_get] st0 0)) = None \<and>
   snd (process_hits eng_forest_raising 0 [ev_get] st0 0) = 0"
  using score_record_total [where eng = eng_forest_raising and r = ev_get and now = 0
      and st = st0 and n = 0, THEN conjunct2] score_ev_get_forest_raising
  by (simp add: st0_def)

section \<open>Properties of the ensemble vote\<close>

lemmas monitor_eval = predict_anomaly_def Let_def run_model_def try_bind_def call_predict_def

lemma dict_set_fresh: "k \<notin> fst ` set d \<Longrightarrow> dict_set d k v = d @ [(k, v)]"
  by (induction d) auto

lemma run_model_known:
  "name \<in> known_model_names \<Longrightarrow> run_model name m fv \<noteq> Inr None"
  by (auto simp add: known_model_names_def run_model_def try_bind_def split: sum.splits)

lemma predict_models_step:
  assumes "name \<in> known_model_names" and "name \<notin> fst ` set ps"
  shows "fst (case run_model name m fv of
                Inr (Some (pred, score)) \<Rightarrow> (dict_set ps name pred, dict_set ss name score)
              | Inr None \<Rightarrow> (ps, ss)
              | Inl e \<Rightarrow> (dict_set ps name 1, dict_set ss name 0.0)) =
         ps @ [recorded_prediction fv (name, m)]"
  using assms run_model_known [of name m fv]
  by (auto simp add: recorded_prediction_def dict_set_fresh split: sum.splits option.splits)

lemma predict_models_predictions:
  assumes "distinct (map fst ms)" and "set (map fst ms) \<subseteq> known_model_names"
    and "fst ` set (fst vs) \<inter> set (map fst ms) = {}"
  shows "fst (predict_models ms fv vs) = fst vs @ map (recorded_prediction fv) ms"
  using assms
proof (induction ms arbitrary: vs)
  case Nil
  then show ?case by simp
next
  case (Cons nm ms)
  obtain name m where nm: "nm = (name, m)" by (cases nm)
  obtain ps ss where vs: "vs = (ps, ss)" by (cases vs)
  let ?vs' = "case run_model name m fv of
                Inr (Some (pred, score)) \<Rightarrow> (dict_set ps name pred, dict_set ss name score)
              | Inr None \<Rightarrow> (ps, ss)
              | Inl e \<Rightarrow> (dict_set ps name 1, dict_set ss name 0.0)"
  have known: "name \<in> known_model_names" using Cons.prems(2) nm by simp
  have fresh: "name \<notin> fst ` set ps" using Cons.prems(3) nm vs by auto
  have step: "fst ?vs' = ps @ [recorded_prediction fv (name, m)]"
    using known fresh by (rule predict_models_step)
  have "fst (recorded_prediction fv (name, m)) = name"
    by (simp add: recorded_prediction_def)
  then have disj: "fst ` set (fst ?vs') \<inter> set (map fst ms) = {}"
    using Cons.prems(1,3) nm vs unfolding step by auto
  have "fst (predict_models ms fv ?vs') = fst ?vs' @ map (recorded_prediction fv) ms"
    using Cons.prems(1,2) disj by (intro Cons.IH) auto
  then show ?case
    unfolding step using nm vs by simp
qed

text \<open>
  C2 (as stated): a detector that raises would be left out of the vote, counting neither
  in the numerator nor in the denominator. With an isolation forest that raises and a
  one-class SVM that reports an anomaly, \<open>predict_anomaly\<close> records the forest with
  prediction 1 and returns the score 1/2; the rule of the specification, which leaves
  the forest out, gives 1.
\<close>

theorem failed_detector_in_denominator_counterexample:
  "run_model ''isolation_forest'' model_raising (engineer_features mon_one_failed 0 ev_get) =
     Inl ModelError \<and>
   model_predictions (predict_anomaly mon_one_failed 0 ev_get) =
     [(''isolation_forest'', 1), (''one_class_svm'', - 1)] \<and>
   pred_ensemble_score (predict_anomaly mon_one_failed 0 ev_get) = 1 / 2 \<and>
   spec_majority_vote (models mon_one_failed) (engineer_features mon_one_failed 0 ev_get) = 1"
  by (simp add: monitor_eval mon_one_failed_def model_raising_def model_const_def
      spec_majority_vote_def)

text \<open>
  C2 (amended): in \<open>predict_anomaly\<close> a detector that raises is recorded as a normal
  vote (prediction 1): it adds nothing to the numerator and is counted in the
  denominator. For the loaded detectors (distinct names among the three the loop knows)
  the recorded predictions are those of the detectors, with 1 for each one that raised,
  and the score is the number of recorded anomalous predictions over the number of
  loaded detectors. The function returns a verdict for every event: no raise of a
  detector ends the scoring.
\<close>

theorem failed_detector_counted_as_normal:
  assumes "distinct (map fst (models mon))"
    and "set (map fst (models mon)) \<subseteq> known_model_names"
  shows "model_predictions (predict_anomaly mon now ev) =
           map (recorded_prediction (engineer_features mon now ev)) (models mon) \<and>
         pred_ensemble_score (predict_anomaly mon now ev) =
           (if models mon = [] then 0
            else real (length (filter
                   (\<lambda>nm. snd (recorded_prediction (engineer_features mon now ev) nm) = - 1)
                   (models mon)))
                 / real (length (models mon))) \<and>
         (\<forall>nm \<in> set (models mon). \<forall>e.
            run_model (fst nm) (snd nm) (engineer_features mon now ev) = Inl e \<longrightarrow>
            recorded_prediction (engineer_features mon now ev) nm = (fst nm, 1))"
proof -
  have p: "fst (predict_models (models mon) (engineer_features mon now ev) ([], [])) =
           map (recorded_prediction (engineer_features mon now ev)) (models mon)"
    using predict_models_predictions [OF assms, of "([], [])"] by simp
  show ?thesis
    by (simp add: predict_anomaly_def Let_def p recorded_prediction_def filter_map o_def)
qed

theorem failed_detector_counted_as_normal_witness:
  "distinct (map fst (models mon_one_failed)) \<and>
   set (map fst (models mon_one_failed)) \<subseteq> known_model_names \<and>
   model_predictions (predict_anomaly mon_one_failed 0 ev_get) =
     [(''isolation_forest'', 1), (''one_class_svm'', - 1)] \<and>
   pred_ensemble_score (predict_anomaly mon_one_failed 0 ev_get) = 1 / 2 \<and>
   run_model ''isolation_forest'' model_raising (engineer_features mon_one_failed 0 ev_get) =
     Inl ModelError \<and>
   recorded_prediction (engineer_features mon_one_failed 0 ev_get)
     (''isolation_forest'', model_raising) = (''isolation_forest'', 1)"
proof -
  have d: "distinct (map fst (models mon_one_failed))"
    by (simp add: mon_one_failed_def)
  have k: "set (map fst (models mon_one_failed)) \<subseteq> known_model_names"
    by (simp add: mon_one_failed_def known_model_names_def)
  show ?thesis
    using failed_detector_counted_as_normal [OF d k, of 0 ev_get] d k
    by (simp add: recorded_prediction_def run_model_def try_bind_def call_predict_def
        mon_one_failed_def model_raising_def model_const_def)
qed

lemma dict_set_subset: "set (dict_set d k v) \<subseteq> insert (k, v) (set d)"
  by (induction d) (auto split: if_splits)

lemma predict_models_all_raise:
  assumes "\<forall>nm \<in> set ms. \<exists>e. run_model (fst nm) (snd nm) fv = Inl e"
    and "\<forall>p \<in> set (fst vs). snd p = 1" and "\<forall>s \<in> set (snd vs). snd s = 0"
  shows "(\<forall>p \<in> set (fst (predict_models ms fv vs)). snd p = 1) \<and>
         (\<forall>s \<in> set (snd (predict_models ms fv vs)). snd s = 0)"
  using assms
proof (induction ms arbitrary: vs)
  case Nil
  then show ?case by simp
next
  case (Cons nm ms)
  obtain name m where nm: "nm = (name, m)" by (cases nm)
  obtain ps ss where vs: "vs = (ps, ss)" by (cases vs)
  from Cons.prems(1) nm obtain e where e: "run_model name m fv = Inl e" by auto
  have ps: "\<forall>p \<in> set (dict_set ps name 1). snd p = (1::int)"
    using Cons.prems(2) vs dict_set_subset [of ps name 1] by auto
  have ss: "\<forall>s \<in> set (dict_set ss name 0). snd s = (0::real)"
    using Cons.prems(3) vs dict_set_subset [of ss name 0] by auto
  have "(\<forall>p \<in> set (fst (predict_models ms fv (dict_set ps name 1, dict_set ss name 0))).
            snd p = 1) \<and>
        (\<forall>s \<in> set (snd (predict_models ms fv (dict_set ps name 1, dict_set ss name 0))).
            snd s = 0)"
    using Cons.prems(1) ps ss by (intro Cons.IH) auto
  then show ?case using nm vs e by simp
qed

lemma no_votes_score:
  assumes "\<forall>p \<in> set ps. snd p = (1::int)"
  shows "filter (\<lambda>p. snd p = - 1) ps = []"
  using assms by (induction ps) auto

text \<open>
  C3 (as stated): a verdict to which no detector contributed would carry an observable
  flag saying so. When the only loaded detector raises, the verdict of \<open>predict_anomaly\<close>
  is equal, field by field, to the verdict obtained when that detector answers normal
  with score 0: nothing in it records the failure.
\<close>

theorem all_failed_verdict_equals_all_normal_counterexample:
  "run_model ''isolation_forest'' model_raising (engineer_features mon_forest_failed 0 ev_get) =
     Inl ModelError \<and>
   run_model ''isolation_forest'' (model_const 1 0)
     (engineer_features mon_forest_normal 0 ev_get) = Inr (Some (1, 0)) \<and>
   predict_anomaly mon_forest_failed 0 ev_get =
     \<lparr>pred_is_anomaly = False, pred_ensemble_score = 0, pred_risk_level = LOW,
      model_predictions = [(''isolation_forest'', 1)],
      model_scores = [(''isolation_forest'', 0)], pred_timestamp = 0\<rparr> \<and>
   predict_anomaly mon_forest_failed 0 ev_get = predict_anomaly mon_forest_normal 0 ev_get"
  by (simp add: monitor_eval mon_forest_failed_def mon_forest_normal_def model_raising_def
      model_const_def)

text \<open>
  C3 (amended): with no detector loaded, \<open>predict_anomaly\<close> returns the score 0, the
  level LOW and no anomaly, and so does \<open>score_record\<close> once the features are prepared;
  when every loaded detector raises, \<open>predict_anomaly\<close> returns the score 0, the level
  LOW and no anomaly, each detector being recorded with prediction 1 and score 0. The
  verdict has no field that marks the degraded state.
\<close>

theorem zero_detectors_score_zero:
  "(models mon = [] \<longrightarrow>
      pred_ensemble_score (predict_anomaly mon now ev) = 0 \<and>
      pred_risk_level (predict_anomaly mon now ev) = LOW \<and>
      \<not> pred_is_anomaly (predict_anomaly mon now ev) \<and>
      model_predictions (predict_anomaly mon now ev) = []) \<and>
   ((\<forall>nm \<in> set (models mon).
        \<exists>e. run_model (fst nm) (snd nm) (engineer_features mon now ev) = Inl e) \<longrightarrow>
      pred_ensemble_score (predict_anomaly mon now ev) = 0 \<and>
      pred_risk_level (predict_anomaly mon now ev) = LOW \<and>
      \<not> pred_is_anomaly (predict_anomaly mon now ev) \<and>
      (\<forall>p \<in> set (model_predictions (predict_anomaly mon now ev)). snd p = 1) \<and>
      (\<forall>s \<in> set (model_scores (predict_anomaly mon now ev)). snd s = 0)) \<and>
   (optimized_models eng ''isolation_forest'' = None \<and>
    optimized_models eng ''one_class_svm'' = None \<and>
    optimized_models eng ''lof_detector'' = None \<and>
    prepare_feature_vector eng r = Inr fv \<longrightarrow>
      (\<exists>v. score_record eng now r = Verdict v \<and> ensemble_score v = 0 \<and>
           risk_level v = LOW \<and> \<not> is_anomaly v \<and> individual_predictions v = [] \<and>
           individual_scores v = []))"
proof (intro conjI impI)
  assume "models mon = []"
  then show "pred_ensemble_score (predict_anomaly mon now ev) = 0"
    and "pred_risk_level (predict_anomaly mon now ev) = LOW"
    and "\<not> pred_is_anomaly (predict_anomaly mon now ev)"
    and "model_predictions (predict_anomaly mon now ev) = []"
    by (simp_all add: predict_anomaly_def)
next
  assume a: "\<forall>nm \<in> set (models mon).
        \<exists>e. run_model (fst nm) (snd nm) (engineer_features mon now ev) = Inl e"
  let ?vs = "predict_models (models mon) (engineer_features mon now ev) ([], [])"
  have inv: "(\<forall>p \<in> set (fst ?vs). snd p = 1) \<and> (\<forall>s \<in> set (snd ?vs). snd s = 0)"
    using a by (intro predict_models_all_raise) auto
  then have nv: "filter (\<lambda>p. snd p = - 1) (fst ?vs) = []"
    by (intro no_votes_score) simp
  show "pred_ensemble_score (predict_anomaly mon now ev) = 0"
    and "pred_risk_level (predict_anomaly mon now ev) = LOW"
    and "\<not> pred_is_anomaly (predict_anomaly mon now ev)"
    by (simp_all add: predict_anomaly_def Let_def nv)
  show "\<forall>p \<in> set (model_predictions (predict_anomaly mon now ev)). snd p = 1"
    using inv by (simp add: predict_anomaly_def Let_def)
  show "\<forall>s \<in> set (model_scores (predict_anomaly mon now ev)). snd s = 0"
    using inv by (simp add: predict_anomaly_def Let_def)
next
  assume "optimized_models eng ''isolation_forest'' = None \<and>
    optimized_models eng ''one_class_svm'' = None \<and>
    optimized_models eng ''lof_detector'' = None \<and>
    prepare_feature_vector eng r = Inr fv"
  then show "\<exists>v. score_record eng now r = Verdict v \<and> ensemble_score v = 0 \<and>
           risk_level v = LOW \<and> \<not> is_anomaly v \<and> individual_predictions v = [] \<and>
           individual_scores v = []"
    by (simp add: score_record_def try_bind_def score_models_def score_detector_def
        score_lof_def ensemble_vote_def risk_level_of_def)
qed

theorem zero_detectors_score_zero_witness:
  "models mon_no_models = [] \<and>
   pred_ensemble_score (predict_anomaly mon_no_models 0 ev_get) = 0 \<and>
   run_model ''isolation_forest'' model_raising (engineer_features mon_all_failed 0 ev_get) =
     Inl ModelError \<and>
   run_model ''one_class_svm'' model_raising (engineer_features mon_all_failed 0 ev_get) =
     Inl ModelError \<and>
   run_model ''lof_detector'' model_raising (engineer_features mon_all_failed 0 ev_get) =
     Inl ModelError \<and>
   pred_ensemble_score (predict_anomaly mon_all_failed 0 ev_get) = 0 \<and>
   pred_risk_level (predict_anomaly mon_all_failed 0 ev_get) = LOW \<and>
   prepare_feature_vector eng_no_models ev_get =
     Inr [PyInt 200, PyInt 0, PyInt 0, PyInt 0, PyInt 0, PyInt 11, PyInt 0, PyInt 0, PyInt 0] \<and>
   (\<exists>v. score_record eng_no_models 0 ev_get = Verdict v \<and> ensemble_score v = 0)"
proof -
  have n: "models mon_no_models = []"
    by (simp add: mon_no_models_def)
  have r: "run_model ''isolation_forest'' model_raising
             (engineer_features mon_all_failed 0 ev_get) = Inl ModelError \<and>
           run_model ''one_class_svm'' model_raising
             (engineer_features mon_all_failed 0 ev_get) = Inl ModelError \<and>
           run_model ''lof_detector'' model_raising
             (engineer_features mon_all_failed 0 ev_get) = Inl ModelError"
    by (simp add: run_model_def try_bind_def call_predict_def model_raising_def)
  then have a: "\<forall>nm \<in> set (models mon_all_failed).
      \<exists>e. run_model (fst nm) (snd nm) (engineer_features mon_all_failed 0 ev_get) = Inl e"
    by (simp add: mon_all_failed_def)
  have b: "prepare_feature_vector eng_no_models ev_get =
     Inr [PyInt 200, PyInt 0, PyInt 0, PyInt 0, PyInt 0, PyInt 11, PyInt 0, PyInt 0, PyInt 0]"
    by (simp add: score_eval eng_no_models_def ev_get_def)
  have c: "optimized_models eng_no_models ''isolation_forest'' = None \<and>
           optimized_models eng_no_models ''one_class_svm'' = None \<and>
           optimized_models eng_no_models ''lof_detector'' = None"
    by (simp add: eng_no_models_def)
  show ?thesis
    using zero_detectors_score_zero [where mon = mon_all_failed and now = 0 and ev = ev_get
        and eng = eng_no_models and r = ev_get
        and fv = "[PyInt 200, PyInt 0, PyInt 0, PyInt 0, PyInt 0, PyInt 11, PyInt 0, PyInt 0,
                   PyInt 0]"]
      zero_detectors_score_zero [where mon = mon_no_models and now = 0 and ev = ev_get
        and eng = eng_no_models and r = ev_get
        and fv = "[PyInt 200, PyInt 0, PyInt 0, PyInt 0, PyInt 0, PyInt 11, PyInt 0, PyInt 0,
                   PyInt 0]"]
      n r a b c
    by blast
qed

end
